theory Spec2Isabelle
  imports Main "HOL-Library.Sublist" "HOL-Library.AList"
begin

section \<open>Python strings\<close>

text \<open>
  A Python \<open>str\<close> is a sequence of code points. It is modelled by \<^typ>\<open>string\<close>, a list of
  \<^typ>\<open>char\<close>, each \<^typ>\<open>char\<close> read as one code point below 256. The operations below are
  the ones the two source files call on strings.
\<close>

text \<open>\<open>sub in s\<close>: the text \<open>sub\<close> occurs in \<open>s\<close> as a contiguous block.\<close>

fun contains :: "string \<Rightarrow> string \<Rightarrow> bool" where
  "contains sub [] = (sub = [])"
| "contains sub (c # cs) = (prefix sub (c # cs) \<or> contains sub cs)"

text \<open>
  \<open>s.replace(old, new)\<close>: every occurrence of \<open>old\<close>, found from left to right without
  overlap, becomes \<open>new\<close>. For an empty \<open>old\<close> Python puts \<open>new\<close> before every code point
  and at the end.
\<close>

fun replace :: "string \<Rightarrow> string \<Rightarrow> string \<Rightarrow> string" where
  "replace old new [] = (if old = [] then new else [])"
| "replace old new (c # cs) =
     (if old = [] then new @ c # replace old new cs
      else if prefix old (c # cs) then new @ replace old new (drop (length old - 1) cs)
      else c # replace old new cs)"

text \<open>
  \<open>c.isspace()\<close> for a code point below 256: tab, line feed, vertical tab, form feed,
  carriage return, the four separators 28 to 31, space, next line (133) and no-break
  space (160).
\<close>

definition isspace :: "char \<Rightarrow> bool" where
  "isspace c = (of_char c \<in> {9, 10, 11, 12, 13, 28, 29, 30, 31, 32, 133, 160 :: nat})"

text \<open>\<open>s.strip()\<close> drops the white space at both ends.\<close>

definition strip :: "string \<Rightarrow> string" where
  "strip s = rev (dropWhile isspace (rev (dropWhile isspace s)))"

text \<open>\<open>s.startswith(p)\<close> and \<open>s.endswith(p)\<close>.\<close>

definition startswith :: "string \<Rightarrow> string \<Rightarrow> bool" where
  "startswith s p = prefix p s"

definition endswith :: "string \<Rightarrow> string \<Rightarrow> bool" where
  "endswith s p = suffix p s"

text \<open>\<open>str(n)\<close> for an integer: its decimal digits, with a minus sign when negative.\<close>

definition digit :: "nat \<Rightarrow> char" where
  "digit d = char_of (48 + d)"

fun str_nat :: "nat \<Rightarrow> string" where
  "str_nat n = (if n < 10 then [digit n] else str_nat (n div 10) @ [digit (n mod 10)])"

declare str_nat.simps [simp del]

definition str_int :: "int \<Rightarrow> string" where
  "str_int i = (if i < 0 then CHR ''-'' # str_nat (nat (- i)) else str_nat (nat i))"

text \<open>The two fence markers and the backtick.\<close>

definition backtick :: char where
  "backtick = CHR 0x60"

definition fence :: string where
  "fence = [backtick, backtick, backtick]"

definition json_fence :: string where
  "json_fence = fence @ ''json''"

section \<open>Cleaning the model's answer in the roadmap route\<close>

text \<open>
  Lines 131 to 139 of \<open>routes/roadmap.py\<close>: the markdown clean-up of \<open>response.text\<close>
  before \<open>json.loads\<close>.
\<close>

definition clean_markdown :: "string \<Rightarrow> string" where
  "clean_markdown roadmap_json =
     (let roadmap_json =
            (if contains json_fence roadmap_json
             then strip (replace fence [] (replace json_fence [] roadmap_json))
             else if contains fence roadmap_json
             then strip (replace fence [] roadmap_json)
             else roadmap_json)
      in replace [backtick] [] roadmap_json)"

section \<open>JSON values\<close>

text \<open>
  What \<open>json.loads\<close> returns: \<open>None\<close>, a \<open>bool\<close>, an \<open>int\<close>, a \<open>float\<close>, a \<open>str\<close>, a
  \<open>list\<close> or a \<open>dict\<close> with string keys, kept in insertion order, each key once. The routes
  never look inside a float; it is kept as mantissa and binary exponent, or as one of
  the three special values Python's reader accepts.
\<close>

datatype pyfloat = Finite int int | Infinity | NegInfinity | NaN

datatype json =
    JNull
  | JBool bool
  | JInt int
  | JFloat pyfloat
  | JStr string
  | JList "json list"
  | JDict "(string \<times> json) list"

text \<open>\<open>isinstance(v, dict)\<close>, \<open>k in v\<close> and \<open>v[k]\<close> for a dict, and \<open>len(v)\<close>.\<close>

fun is_dict :: "json \<Rightarrow> bool" where
  "is_dict (JDict kvs) = True"
| "is_dict v = False"

fun has_key :: "string \<Rightarrow> json \<Rightarrow> bool" where
  "has_key k (JDict kvs) = (k \<in> set (map fst kvs))"
| "has_key k v = False"

fun getitem :: "json \<Rightarrow> string \<Rightarrow> json option" where
  "getitem (JDict kvs) k = map_of kvs k"
| "getitem v k = None"

text \<open>\<open>len\<close> raises \<open>TypeError\<close> on \<open>None\<close>, a bool or a number.\<close>

fun len :: "json \<Rightarrow> string + nat" where
  "len (JStr s) = Inr (length s)"
| "len (JList xs) = Inr (length xs)"
| "len (JDict kvs) = Inr (length kvs)"
| "len v = Inl ''TypeError: object has no len()''"

section \<open>The outside world of one request\<close>

text \<open>
  Everything a request reads from outside the two source files is a field of the
  environment: the configuration, whether a library call raises and with which text, the
  answer of the generative model, the JSON reader, the fresh identifier and the clock.
  An exception is represented by its text, \<open>str(e)\<close>.
\<close>

text \<open>
  What \<open>insert_one(roadmap_document)\<close> does. \<open>Inserted oid\<close>: the document is written, with
  \<open>oid\<close> as its \<open>_id\<close>. \<open>Raised err None\<close>: it raises before it has touched the document.
  \<open>Raised err (Some (oid, applied))\<close>: it raises after it has put \<open>_id = oid\<close> into the
  dict it was given, and \<open>applied\<close> tells whether the server had applied the write by then
  (a reply lost on the network, for one).
\<close>

datatype insert_outcome = Inserted string | Raised string "(string \<times> bool) option"

record env =
  MONGODB_URI :: "string option"
  MONGODB_DB_NAME :: "string option"
  MONGODB_ROADMAP_COLLECTION :: "string option"
  ping_raises :: bool
    \<comment> \<open>\<open>MongoClient(...)\<close> or \<open>client.admin.command('ping')\<close> raises\<close>
  vertexai_imports :: bool
    \<comment> \<open>\<open>import vertexai\<close> and \<open>from vertexai.generative_models import GenerativeModel\<close> succeed\<close>
  vertex_setup_raises :: "string option"
    \<comment> \<open>the exception, if any, of the statements between the import and \<open>generate_content\<close>:
        reading \<open>Config\<close>, the credentials, \<open>vertexai.init\<close>, \<open>GenerativeModel(...)\<close>\<close>
  generate_content :: "string \<Rightarrow> string + string"
    \<comment> \<open>\<open>model.generate_content(prompt)\<close>: \<open>Inl\<close> an exception, \<open>Inr\<close> the \<open>response.text\<close>\<close>
  json_loads :: "string \<Rightarrow> string + json"
    \<comment> \<open>\<open>json.loads\<close>: \<open>Inl\<close> the text of the \<open>JSONDecodeError\<close>, \<open>Inr\<close> the value\<close>
  uuid4 :: string
    \<comment> \<open>\<open>str(uuid.uuid4())\<close>\<close>
  utcnow :: nat
    \<comment> \<open>\<open>datetime.utcnow()\<close>, as an instant\<close>
  database_bool_raises :: "string option"
    \<comment> \<open>the exception, if any, of the truth test of a \<open>Database\<close> handle in
        \<open>if db and collection_name\<close>: none before PyMongo 4; since PyMongo 4
        \<open>Database.__bool__\<close> raises \<open>NotImplementedError\<close>\<close>
  insert_one :: insert_outcome
  find_raises :: "string option"
    \<comment> \<open>the exception, if any, of \<open>find\<close> and \<open>find_one\<close>\<close>
  delete_one_raises :: "string option"
  racing_delete :: bool
    \<comment> \<open>another request deletes the same roadmap between this request's look-up and its
        own deletion (the stores are shared by all requests, without a lock)\<close>

section \<open>Roadmap documents and the two stores\<close>

text \<open>
  \<open>created_at\<close> is a \<open>datetime\<close> in the document written to MongoDB and the text
  \<open>created_at.isoformat()\<close> in the copy kept in memory; both are given by their instant.
\<close>

datatype created = Datetime nat | Isoformat nat

fun instant :: "created \<Rightarrow> nat" where
  "instant (Datetime t) = t"
| "instant (Isoformat t) = t"

text \<open>
  The \<open>roadmap_document\<close> dict of lines 145 to 153, one field for each key, and the key
  \<open>_id\<close> that \<open>insert_one\<close> adds: \<open>doc_oid\<close> is \<open>None\<close> while the dict has no \<open>_id\<close>, and the
  text of the \<open>ObjectId\<close> once it has one.
\<close>

record roadmap_document =
  doc_oid :: "string option"
  doc_id :: string
  doc_user_email :: string
  doc_title :: string
  doc_description :: string
  doc_duration_weeks :: "int option"
  doc_created_at :: created
  doc_data :: json

text \<open>
  The module's globals \<open>client\<close>, \<open>db\<close>, \<open>collection_name\<close> and \<open>_in_memory_roadmaps\<close>, and
  the content of the MongoDB collection \<open>db[collection_name]\<close>: its documents in insertion
  order, each with its \<open>_id\<close>. The dict \<open>_in_memory_roadmaps\<close> is an association list in
  insertion order.
\<close>

record server =
  client :: "string option"
  db :: "string option"
  collection_name :: "string option"
  roadmap_collection :: "roadmap_document list"
  in_memory_roadmaps :: "(string \<times> roadmap_document) list"

text \<open>A Flask response: the body given to \<open>jsonify\<close> and the status.\<close>

datatype body =
    Obj "(string \<times> json) list"
      \<comment> \<open>\<open>jsonify\<close> of a dict literal\<close>
  | Doc roadmap_document
      \<comment> \<open>\<open>jsonify\<close> of one stored roadmap, its \<open>_id\<close>, if any, as a string\<close>
  | Docs "roadmap_document list"
      \<comment> \<open>\<open>jsonify\<close> of a list of stored roadmaps\<close>

type_synonym response = "body \<times> nat"

text \<open>The truth value of \<open>x\<close> for \<open>x\<close> a string or \<open>None\<close>, as in \<open>if not x\<close>.\<close>

fun truthy :: "string option \<Rightarrow> bool" where
  "truthy None = False"
| "truthy (Some s) = (s \<noteq> [])"

text \<open>\<open>connect_to_mongodb\<close>, lines 26 to 46.\<close>

definition connect_to_mongodb :: "env \<Rightarrow> string option \<times> string option \<times> string option" where
  "connect_to_mongodb e =
     (let connection_string = MONGODB_URI e;
          db_name = MONGODB_DB_NAME e;
          dynamic_collection =
            (if truthy (MONGODB_ROADMAP_COLLECTION e) then MONGODB_ROADMAP_COLLECTION e
             else Some ''roadmaps'')
      in if \<not> truthy connection_string \<or> \<not> truthy db_name then (None, None, None)
         else if ping_raises e then (None, None, None)
         else (connection_string, db_name, dynamic_collection))"

text \<open>The first statement of every route: \<open>if db is None: client, db, collection_name = connect_to_mongodb()\<close>.\<close>

definition reconnect :: "env \<Rightarrow> server \<Rightarrow> server" where
  "reconnect e s =
     (if db s = None
      then (case connect_to_mongodb e of
              (c, d, n) \<Rightarrow> s\<lparr>client := c, db := d, collection_name := n\<rparr>)
      else s)"

text \<open>
  The condition \<open>db and collection_name\<close> of lines 156, 203 and 239. When \<open>db\<close> is \<open>None\<close>
  the condition is false. Otherwise \<open>db\<close> is a \<open>Database\<close> handle and Python asks it for its
  truth value, which raises or is true; when it is true the condition is the truth value
  of \<open>collection_name\<close>. \<open>Inl\<close> is the exception.
\<close>

definition db_and_collection_name :: "env \<Rightarrow> server \<Rightarrow> string + bool" where
  "db_and_collection_name e s =
     (case db s of
        None \<Rightarrow> Inr False
      | Some handle \<Rightarrow>
          (case database_bool_raises e of
             Some err \<Rightarrow> Inl err
           | None \<Rightarrow> Inr (truthy (collection_name s))))"

text \<open>
  \<open>jsonify\<close> of stored roadmaps that were not given a string \<open>_id\<close>: an \<open>ObjectId\<close> is not
  JSON serializable, and \<open>jsonify\<close> raises \<open>TypeError\<close> on a dict that holds one.
\<close>

definition jsonify_roadmaps :: "roadmap_document list \<Rightarrow> string + roadmap_document list" where
  "jsonify_roadmaps rs =
     (if \<exists>r \<in> set rs. doc_oid r \<noteq> None
      then Inl ''Object of type ObjectId is not JSON serializable''
      else Inr rs)"

section \<open>The route \<open>generate_roadmap\<close>\<close>

text \<open>The prompt of lines 117 to 127.\<close>

definition prompt :: "string \<Rightarrow> string \<Rightarrow> int option \<Rightarrow> string" where
  "prompt goal background duration_weeks =
     ''You are a career roadmap assistant. Given a user'' @ [CHR 0x27] @ ''s goal and background, ''
     @ ''generate a learning roadmap as a directed graph in JSON. ''
     @ ''Each node should represent a milestone or skill, with edges showing dependencies. ''
     @ ''Each node must have: id, title, description, recommended_weeks, resources (list of links or names). ''
     @ ''The graph should have a start node and an end node (the goal). ''
     @ ''Respond ONLY with a JSON object with keys: nodes (list), edges (list of {from, to}).''
     @ [CHR 0x0A, CHR 0x0A]
     @ ''Goal: '' @ goal @ [CHR 0x0A]
     @ ''Background: '' @ background @ [CHR 0x0A]
     @ ''Target Duration (weeks): ''
     @ (case duration_weeks of
          None \<Rightarrow> ''Not specified''
        | Some w \<Rightarrow> if w = 0 then ''Not specified'' else str_int w)"

text \<open>The fallback roadmap of lines 92 to 104.\<close>

definition node :: "string \<Rightarrow> string \<Rightarrow> string \<Rightarrow> int \<Rightarrow> json" where
  "node i t d w =
     JDict [(''id'', JStr i), (''title'', JStr t), (''description'', JStr d),
            (''recommended_weeks'', JInt w), (''resources'', JList [])]"

definition edge :: "string \<Rightarrow> string \<Rightarrow> json" where
  "edge a b = JDict [(''from'', JStr a), (''to'', JStr b)]"

definition fallback :: "string \<Rightarrow> string \<Rightarrow> json" where
  "fallback goal background =
     JDict
       [(''nodes'', JList
           [node ''start'' (''Start: '' @ goal) background 1,
            node ''fundamentals'' ''Fundamentals'' ''Core concepts and basics.'' 2,
            node ''project'' ''Project Work'' ''Build a project to apply learning.'' 2,
            node ''goal'' (''Achieve: '' @ goal) ''Target goal milestone.'' 1]),
        (''edges'', JList
           [edge ''start'' ''fundamentals'',
            edge ''fundamentals'' ''project'',
            edge ''project'' ''goal''])]"

text \<open>The \<open>except Exception as e\<close> of line 181.\<close>

definition generation_failed :: "string \<Rightarrow> response" where
  "generation_failed e = (Obj [(''error'', JStr (''Roadmap generation failed: '' @ e))], 500)"

text \<open>
  \<open>_in_memory_roadmaps[roadmap_document["id"]] = {**roadmap_document, "created_at": ...isoformat()}\<close>,
  lines 163 to 166 and 173 to 176.
\<close>

definition store_in_memory :: "roadmap_document \<Rightarrow> server \<Rightarrow> server" where
  "store_in_memory roadmap_document s =
     s\<lparr>in_memory_roadmaps :=
         AList.update (doc_id roadmap_document)
           (roadmap_document\<lparr>doc_created_at := Isoformat (instant (doc_created_at roadmap_document))\<rparr>)
           (in_memory_roadmaps s)\<rparr>"

text \<open>
  Lines 144 to 180: the document and its persistence, once the answer has been parsed.
  An exception of the condition of line 156 is outside the inner \<open>try\<close> and reaches the
  handler of line 181. An exception of \<open>insert_one\<close> is caught at line 161, whatever
  \<open>insert_one\<close> had done before: the dict then has the \<open>_id\<close> it was given, and the collection
  has the document when the write had been applied.
\<close>

definition persist ::
  "env \<Rightarrow> string \<Rightarrow> string \<Rightarrow> int option \<Rightarrow> string \<Rightarrow> json \<Rightarrow> server \<Rightarrow> response \<times> server" where
  "persist e goal background duration_weeks user_email roadmap_data s =
     (let roadmap_document =
            \<lparr>doc_oid = None, doc_id = uuid4 e, doc_user_email = user_email, doc_title = goal,
             doc_description = background, doc_duration_weeks = duration_weeks,
             doc_created_at = Datetime (utcnow e), doc_data = roadmap_data\<rparr>
      in case db_and_collection_name e s of
           Inl err \<Rightarrow> (generation_failed err, s)
         | Inr True \<Rightarrow>
             (case insert_one e of
                Inserted oid \<Rightarrow>
                  ((Obj [(''roadmap'', roadmap_data)], 200),
                   s\<lparr>roadmap_collection :=
                       roadmap_collection s @ [roadmap_document\<lparr>doc_oid := Some oid\<rparr>]\<rparr>)
              | Raised db_error None \<Rightarrow>
                  ((Obj [(''roadmap'', roadmap_data),
                         (''warning'', JStr (''Database save failed, stored in memory fallback: '' @ db_error))],
                    200),
                   store_in_memory roadmap_document s)
              | Raised db_error (Some (oid, applied)) \<Rightarrow>
                  ((Obj [(''roadmap'', roadmap_data),
                         (''warning'', JStr (''Database save failed, stored in memory fallback: '' @ db_error))],
                    200),
                   store_in_memory (roadmap_document\<lparr>doc_oid := Some oid\<rparr>)
                     (if applied
                      then s\<lparr>roadmap_collection :=
                               roadmap_collection s @ [roadmap_document\<lparr>doc_oid := Some oid\<rparr>]\<rparr>
                      else s)))
         | Inr False \<Rightarrow>
             ((Obj [(''roadmap'', roadmap_data),
                    (''note'', JStr ''MongoDB not configured; using in-memory storage'')],
               200),
              store_in_memory roadmap_document s))"

text \<open>Lines 85 to 182: the \<open>try\<close> block, entered with a goal, a background and an email.\<close>

definition generate_checked ::
  "env \<Rightarrow> string \<Rightarrow> string \<Rightarrow> int option \<Rightarrow> string \<Rightarrow> server \<Rightarrow> response \<times> server" where
  "generate_checked e goal background duration_weeks user_email s =
     (if \<not> vertexai_imports e then
        ((Obj [(''roadmap'', fallback goal background),
               (''note'', JStr ''AI service not available; returned a basic fallback roadmap.'')],
          200), s)
      else
        (case vertex_setup_raises e of
           Some err \<Rightarrow> (generation_failed err, s)
         | None \<Rightarrow>
             (case generate_content e (prompt goal background duration_weeks) of
                Inl err \<Rightarrow> (generation_failed err, s)
              | Inr roadmap_json \<Rightarrow>
                  (case json_loads e (clean_markdown roadmap_json) of
                     Inl err \<Rightarrow> (generation_failed err, s)
                   | Inr roadmap_data \<Rightarrow>
                       persist e goal background duration_weeks user_email roadmap_data s))))"

text \<open>
  The route, lines 57 to 182. The four arguments are \<open>data.get("goal")\<close> and so on:
  \<open>None\<close> for a missing member.
\<close>

definition missing_goal_or_background :: response where
  "missing_goal_or_background = (Obj [(''error'', JStr ''Missing goal or background'')], 400)"

definition missing_user_email :: response where
  "missing_user_email = (Obj [(''error'', JStr ''Missing user email'')], 400)"

definition generate_roadmap ::
  "env \<Rightarrow> string option \<Rightarrow> string option \<Rightarrow> int option \<Rightarrow> string option \<Rightarrow> server
     \<Rightarrow> response \<times> server" where
  "generate_roadmap e goal background duration_weeks user_email s0 =
     (let s = reconnect e s0
      in if \<not> truthy goal \<or> \<not> truthy background then (missing_goal_or_background, s)
         else if \<not> truthy user_email then (missing_user_email, s)
         else (case (goal, background, user_email) of
                 (Some g, Some b, Some u) \<Rightarrow> generate_checked e g b duration_weeks u s
               | _ \<Rightarrow> (missing_goal_or_background, s)))"

section \<open>The route \<open>get_user_roadmaps\<close>\<close>

text \<open>
  Lines 186 to 215. \<open>find(...).sort("created_at", -1)\<close> gives the user's documents, latest
  first, and the loop turns each \<open>_id\<close> into a string; the in-memory branch filters the
  dict's values in insertion order.
\<close>

definition missing_user_email_parameter :: response where
  "missing_user_email_parameter = (Obj [(''error'', JStr ''Missing user_email parameter'')], 400)"

definition retrieve_failed :: "string \<Rightarrow> response" where
  "retrieve_failed e = (Obj [(''error'', JStr (''Failed to retrieve roadmaps: '' @ e))], 500)"

definition get_user_roadmaps :: "env \<Rightarrow> string option \<Rightarrow> server \<Rightarrow> response \<times> server" where
  "get_user_roadmaps e user_email s0 =
     (let s = reconnect e s0
      in case user_email of
           None \<Rightarrow> (missing_user_email_parameter, s)
         | Some u \<Rightarrow>
             if u = [] then (missing_user_email_parameter, s)
             else
               (case db_and_collection_name e s of
                  Inl err \<Rightarrow> (retrieve_failed err, s)
                | Inr True \<Rightarrow>
                    (case find_raises e of
                       Some err \<Rightarrow> (retrieve_failed err, s)
                     | None \<Rightarrow>
                         ((Docs (rev (sort_key (\<lambda>roadmap. instant (doc_created_at roadmap))
                                        (filter (\<lambda>roadmap. doc_user_email roadmap = u)
                                           (roadmap_collection s)))),
                           200), s))
                | Inr False \<Rightarrow>
                    (case jsonify_roadmaps
                            (filter (\<lambda>r. doc_user_email r = u) (map snd (in_memory_roadmaps s))) of
                       Inl err \<Rightarrow> (retrieve_failed err, s)
                     | Inr user_roadmaps \<Rightarrow> ((Docs user_roadmaps, 200), s))))"

section \<open>The route \<open>get_roadmap_by_id\<close>\<close>

datatype http_method = GET | DELETE

definition not_found :: response where
  "not_found = (Obj [(''error'', JStr ''Roadmap not found or access denied'')], 404)"

definition deleted :: response where
  "deleted = (Obj [(''success'', JBool True), (''message'', JStr ''Roadmap deleted successfully'')], 200)"

definition operation_failed :: "string \<Rightarrow> response" where
  "operation_failed e = (Obj [(''error'', JStr (''Operation failed: '' @ e))], 500)"

text \<open>
  \<open>delete_one(filter)\<close> removes the first document that matches and reports how many it
  removed.
\<close>

fun delete_one :: "('a \<Rightarrow> bool) \<Rightarrow> 'a list \<Rightarrow> nat \<times> 'a list" where
  "delete_one P [] = (0, [])"
| "delete_one P (x # xs) =
     (if P x then (1, xs) else (case delete_one P xs of (n, ys) \<Rightarrow> (n, x # ys)))"

text \<open>The filter \<open>{"id": roadmap_id, "user_email": user_email}\<close>.\<close>

definition owned :: "string \<Rightarrow> string \<Rightarrow> roadmap_document \<Rightarrow> bool" where
  "owned roadmap_id user_email roadmap =
     (doc_id roadmap = roadmap_id \<and> doc_user_email roadmap = user_email)"

text \<open>The collection as \<open>delete_one\<close> finds it, and what \<open>delete_one\<close> reports and leaves.\<close>

definition collection_at_delete :: "env \<Rightarrow> string \<Rightarrow> string \<Rightarrow> server \<Rightarrow> roadmap_document list" where
  "collection_at_delete e roadmap_id user_email s =
     (if racing_delete e then snd (delete_one (owned roadmap_id user_email) (roadmap_collection s))
      else roadmap_collection s)"

definition deleted_count :: "env \<Rightarrow> string \<Rightarrow> string \<Rightarrow> server \<Rightarrow> nat" where
  "deleted_count e roadmap_id user_email s =
     fst (delete_one (owned roadmap_id user_email) (collection_at_delete e roadmap_id user_email s))"

text \<open>Lines 240 to 262: the MongoDB branch.\<close>

definition by_id_mongo :: "env \<Rightarrow> http_method \<Rightarrow> string \<Rightarrow> string \<Rightarrow> server \<Rightarrow> response \<times> server" where
  "by_id_mongo e method roadmap_id user_email s =
     (case find_raises e of
        Some err \<Rightarrow> (operation_failed err, s)
      | None \<Rightarrow>
          (case find (owned roadmap_id user_email) (roadmap_collection s) of
             None \<Rightarrow> (not_found, s)
           | Some roadmap \<Rightarrow>
               if method = DELETE then
                 (case delete_one_raises e of
                    Some err \<Rightarrow>
                      (operation_failed err,
                       s\<lparr>roadmap_collection := collection_at_delete e roadmap_id user_email s\<rparr>)
                  | None \<Rightarrow>
                      (if deleted_count e roadmap_id user_email s > 0 then deleted
                       else (Obj [(''error'', JStr ''Failed to delete roadmap'')], 500),
                       s\<lparr>roadmap_collection :=
                           snd (delete_one (owned roadmap_id user_email)
                                  (collection_at_delete e roadmap_id user_email s))\<rparr>))
               else ((Doc roadmap, 200), s)))"

text \<open>
  Lines 264 to 278: the in-memory branch. \<open>pop(key, None)\<close> removes the key when it is
  there and returns \<open>None\<close> when it is not; the route does not read what it returns.
\<close>

definition pop :: "string \<Rightarrow> (string \<times> 'v) list \<Rightarrow> 'v option \<times> (string \<times> 'v) list" where
  "pop k al = (map_of al k, AList.delete k al)"

definition memory_at_pop :: "env \<Rightarrow> string \<Rightarrow> server \<Rightarrow> (string \<times> roadmap_document) list" where
  "memory_at_pop e k s =
     (if racing_delete e then snd (pop k (in_memory_roadmaps s)) else in_memory_roadmaps s)"

definition by_id_memory :: "env \<Rightarrow> http_method \<Rightarrow> string \<Rightarrow> string \<Rightarrow> server \<Rightarrow> response \<times> server" where
  "by_id_memory e method roadmap_id user_email s =
     (case find (\<lambda>(rid, roadmap). owned roadmap_id user_email roadmap) (in_memory_roadmaps s) of
        None \<Rightarrow> (not_found, s)
      | Some (rid, r) \<Rightarrow>
          if method = DELETE then
            (deleted, s\<lparr>in_memory_roadmaps := snd (pop (doc_id r) (memory_at_pop e (doc_id r) s))\<rparr>)
          else
            (case jsonify_roadmaps [r] of
               Inl err \<Rightarrow> (operation_failed err, s)
             | Inr rs \<Rightarrow> ((Doc r, 200), s)))"

text \<open>The route, lines 219 to 281.\<close>

definition get_roadmap_by_id ::
  "env \<Rightarrow> http_method \<Rightarrow> string \<Rightarrow> string option \<Rightarrow> server \<Rightarrow> response \<times> server" where
  "get_roadmap_by_id e method roadmap_id user_email s0 =
     (let s = reconnect e s0
      in if roadmap_id = [] then ((Obj [(''error'', JStr ''Missing roadmap_id parameter'')], 400), s)
         else (case user_email of
                 None \<Rightarrow> (missing_user_email_parameter, s)
               | Some u \<Rightarrow>
                   if u = [] then (missing_user_email_parameter, s)
                   else
                     (case db_and_collection_name e s of
                        Inl err \<Rightarrow> (operation_failed err, s)
                      | Inr True \<Rightarrow> by_id_mongo e method roadmap_id u s
                      | Inr False \<Rightarrow> by_id_memory e method roadmap_id u s)))"

section \<open>Loading the route module\<close>

text \<open>
  Line 18 of \<open>routes/roadmap.py\<close>, \<open>from app.utils.ai_utils import ...\<close>, runs the module
  \<open>utils/ai_utils.py\<close>, whose lines 13 and 14 import \<open>vertexai\<close> and \<open>GenerativeModel\<close> at
  module level. So the route module loads only when \<open>vertexai\<close> can be imported and the
  other module-level statements of the two files succeed; \<open>others_load\<close> stands for the
  latter.
\<close>

definition ai_utils_loads :: "bool \<Rightarrow> bool \<Rightarrow> bool" where
  "ai_utils_loads vertexai_importable others_load = (vertexai_importable \<and> others_load)"

definition roadmap_module_loads :: "bool \<Rightarrow> bool \<Rightarrow> bool" where
  "roadmap_module_loads vertexai_importable others_load =
     ai_utils_loads vertexai_importable others_load"

text \<open>
  The answer of the application to \<open>POST /api/roadmap/generate\<close>: none from this route when
  its module has not loaded. When it has, \<open>vertexai\<close> and \<open>vertexai.generative_models\<close> are
  in \<open>sys.modules\<close>, and the imports of lines 88 and 89 are served from there.
\<close>

definition post_generate ::
  "bool \<Rightarrow> bool \<Rightarrow> env \<Rightarrow> string option \<Rightarrow> string option \<Rightarrow> int option \<Rightarrow> string option
     \<Rightarrow> server \<Rightarrow> (response \<times> server) option" where
  "post_generate vertexai_importable others_load e goal background duration_weeks user_email s =
     (if roadmap_module_loads vertexai_importable others_load
      then Some (generate_roadmap (e\<lparr>vertexai_imports := True\<rparr>) goal background duration_weeks
                   user_email s)
      else None)"

section \<open>\<open>create_quiz\<close>\<close>

text \<open>The prompt of lines 35 to 56 of \<open>utils/ai_utils.py\<close>.\<close>

definition nl :: string where
  "nl = [CHR 0x0A]"

definition quiz_prompt :: "string \<Rightarrow> string \<Rightarrow> int \<Rightarrow> string" where
  \<open>quiz_prompt topic difficulty num_questions =
     ''Generate a quiz about "'' @ topic @ ''" with '' @ str_int num_questions
       @ '' multiple choice questions.'' @ nl
     @ ''Difficulty: '' @ difficulty @ nl
     @ nl
     @ ''Return ONLY valid JSON in this exact format:'' @ nl
     @ ''{'' @ nl
     @ ''  "topic": "'' @ topic @ ''",'' @ nl
     @ ''  "difficulty": "'' @ difficulty @ ''",'' @ nl
     @ ''  "questions": ['' @ nl
     @ ''    {'' @ nl
     @ ''      "id": 1,'' @ nl
     @ ''      "question": "Question text here?",'' @ nl
     @ ''      "options": ["Option A", "Option B", "Option C", "Option D"],'' @ nl
     @ ''      "correctAnswer": "Option A"'' @ nl
     @ ''    }'' @ nl
     @ ''  ]'' @ nl
     @ ''}'' @ nl
     @ nl
     @ ''Requirements:'' @ nl
     @ ''- Return ONLY the JSON, no markdown, no extra text'' @ nl
     @ ''- Exactly '' @ str_int num_questions @ '' questions'' @ nl
     @ ''- Each question has exactly 4 options'' @ nl
     @ ''- correctAnswer must match exactly one of the options''\<close>

text \<open>Lines 62 to 70: the fence at the start and the fence at the end are cut off.\<close>

definition clean_response_text :: "string \<Rightarrow> string" where
  "clean_response_text text =
     (let response_text = strip text;
          response_text =
            (if startswith response_text json_fence then drop 7 response_text
             else if startswith response_text fence then drop 3 response_text
             else response_text);
          response_text =
            (if endswith response_text fence
             then take (length response_text - 3) response_text
             else response_text)
      in response_text)"

text \<open>
  Lines 76 to 80, the basic validation: \<open>Inr\<close> the value of the condition, or \<open>Inl\<close> the
  exception of \<open>len\<close>.
\<close>

definition basic_validation :: "json \<Rightarrow> int \<Rightarrow> string + bool" where
  "basic_validation quiz_data num_questions =
     (if is_dict quiz_data \<and> has_key ''topic'' quiz_data \<and> has_key ''difficulty'' quiz_data
         \<and> has_key ''questions'' quiz_data
      then (case getitem quiz_data ''questions'' of
              None \<Rightarrow> Inl ''KeyError: questions''
            | Some qs \<Rightarrow>
                (case len qs of
                   Inl err \<Rightarrow> Inl err
                 | Inr n \<Rightarrow> Inr (int n = num_questions)))
      else Inr False)"

text \<open>
  Lines 26 to 85, the \<open>try\<close> block: \<open>Inl\<close> the exception it raises, \<open>Inr (Some quiz_data)\<close>
  when it returns \<open>quiz_data\<close>, \<open>Inr None\<close> when it ends without returning.
\<close>

definition ai_generation :: "env \<Rightarrow> string \<Rightarrow> string \<Rightarrow> int \<Rightarrow> string + json option" where
  "ai_generation e topic difficulty num_questions =
     (case vertex_setup_raises e of
        Some err \<Rightarrow> Inl err
      | None \<Rightarrow>
          (case generate_content e (quiz_prompt topic difficulty num_questions) of
             Inl err \<Rightarrow> Inl err
           | Inr text \<Rightarrow>
               (case json_loads e (strip (clean_response_text text)) of
                  Inl err \<Rightarrow> Inl err
                | Inr quiz_data \<Rightarrow>
                    (case basic_validation quiz_data num_questions of
                       Inl err \<Rightarrow> Inl err
                     | Inr ok \<Rightarrow> Inr (if ok then Some quiz_data else None)))))"

text \<open>Lines 89 to 101: the hardcoded quiz, one question for each \<open>i\<close> in \<open>range(num_questions)\<close>.\<close>

definition hardcoded_question :: "string \<Rightarrow> int \<Rightarrow> json" where
  "hardcoded_question topic i =
     JDict
       [(''id'', JInt (i + 1)),
        (''question'', JStr (''Sample question '' @ str_int (i + 1) @ '' for '' @ topic @ ''?'')),
        (''options'', JList
           [JStr (''Option A '' @ str_int (i + 1)), JStr (''Option B '' @ str_int (i + 1)),
            JStr (''Option C '' @ str_int (i + 1)), JStr (''Option D '' @ str_int (i + 1))]),
        (''correctAnswer'', JStr (''Option A '' @ str_int (i + 1)))]"

definition hardcoded_quiz :: "string \<Rightarrow> string \<Rightarrow> int \<Rightarrow> json" where
  "hardcoded_quiz topic difficulty num_questions =
     JDict
       [(''topic'', JStr topic),
        (''difficulty'', JStr difficulty),
        (''questions'', JList (map (hardcoded_question topic) [0..num_questions - 1]))]"

text \<open>
  \<open>create_quiz\<close>, lines 18 to 101: \<open>Inr\<close> the value it returns; \<open>Inl\<close> would be an exception
  that leaves the function.
\<close>

definition create_quiz :: "env \<Rightarrow> string \<Rightarrow> string \<Rightarrow> int \<Rightarrow> string + json" where
  "create_quiz e topic difficulty num_questions =
     (case ai_generation e topic difficulty num_questions of
        Inr (Some quiz_data) \<Rightarrow> Inr quiz_data
      | Inr None \<Rightarrow> Inr (hardcoded_quiz topic difficulty num_questions)
      | Inl err \<Rightarrow> Inr (hardcoded_quiz topic difficulty num_questions))"

section \<open>Reading a quiz and a roadmap graph\<close>

text \<open>The observations the properties below are stated with.\<close>

fun items :: "json \<Rightarrow> json list option" where
  "items (JList xs) = Some xs"
| "items v = None"

definition questions :: "json \<Rightarrow> json list option" where
  "questions quiz = (case getitem quiz ''questions'' of None \<Rightarrow> None | Some qs \<Rightarrow> items qs)"

definition four_options :: "json \<Rightarrow> bool" where
  "four_options q =
     (case getitem q ''options'' of
        Some (JList os) \<Rightarrow> length os = 4
      | _ \<Rightarrow> False)"

definition answer_is_first_option :: "json \<Rightarrow> bool" where
  "answer_is_first_option q =
     (case getitem q ''options'' of
        Some (JList (a # os)) \<Rightarrow> getitem q ''correctAnswer'' = Some a
      | _ \<Rightarrow> False)"

definition node_ids :: "json \<Rightarrow> json option list" where
  "node_ids graph =
     (case getitem graph ''nodes'' of
        Some (JList ns) \<Rightarrow> map (\<lambda>n. getitem n ''id'') ns
      | _ \<Rightarrow> [])"

definition edge_pairs :: "json \<Rightarrow> (json option \<times> json option) list" where
  "edge_pairs graph =
     (case getitem graph ''edges'' of
        Some (JList es) \<Rightarrow> map (\<lambda>e. (getitem e ''from'', getitem e ''to'')) es
      | _ \<Rightarrow> [])"

text \<open>The members of a response body, and the stored roadmaps a response shows.\<close>

fun body_member :: "string \<Rightarrow> body \<Rightarrow> json option" where
  "body_member k (Obj kvs) = map_of kvs k"
| "body_member k b = None"

fun shown :: "body \<Rightarrow> roadmap_document set" where
  "shown (Obj kvs) = {}"
| "shown (Doc r) = {r}"
| "shown (Docs rs) = set rs"

definition mongo_ids :: "server \<Rightarrow> string set" where
  "mongo_ids s = doc_id ` set (roadmap_collection s)"

definition memory_ids :: "server \<Rightarrow> string set" where
  "memory_ids s = doc_id ` snd ` set (in_memory_roadmaps s)"

definition stored :: "server \<Rightarrow> roadmap_document set" where
  "stored s = set (roadmap_collection s) \<union> snd ` set (in_memory_roadmaps s)"

section \<open>The normalizer in the specification's words\<close>

text \<open>
  If the text contains the JSON-tagged fence, remove all fence markers, tagged and bare,
  and strip; otherwise, if it contains a bare fence, remove those and strip; finally
  remove every backtick that is left.
\<close>

definition remove_all :: "string \<Rightarrow> string \<Rightarrow> string" where
  "remove_all marker s = replace marker [] s"

definition spec_normalize :: "string \<Rightarrow> string" where
  "spec_normalize raw =
     filter (\<lambda>c. c \<noteq> backtick)
       (if contains json_fence raw then strip (remove_all fence (remove_all json_fence raw))
        else if contains fence raw then strip (remove_all fence raw)
        else raw)"

section \<open>Sequences of requests\<close>

datatype request =
    Generate "string option" "string option" "int option" "string option"
  | UserRoadmaps "string option"
  | ById http_method string "string option"

fun handle :: "env \<Rightarrow> request \<Rightarrow> server \<Rightarrow> response \<times> server" where
  "handle e (Generate goal background duration_weeks user_email) s =
     generate_roadmap e goal background duration_weeks user_email s"
| "handle e (UserRoadmaps user_email) s = get_user_roadmaps e user_email s"
| "handle e (ById method roadmap_id user_email) s = get_roadmap_by_id e method roadmap_id user_email s"

text \<open>The server after a sequence of requests, each in its own environment.\<close>

fun run :: "(env \<times> request) list \<Rightarrow> server \<Rightarrow> server" where
  "run [] s = s"
| "run ((e, r) # rs) s = run rs (snd (handle e r s))"

text \<open>A request that asks to delete the roadmap \<open>k\<close>.\<close>

fun deletes :: "string \<Rightarrow> request \<Rightarrow> bool" where
  "deletes k (ById method roadmap_id user_email) = (method = DELETE \<and> roadmap_id = k)"
| "deletes k r = False"

text \<open>\<open>uuid4\<close> never gives an identifier again: none of \<open>used\<close>, and none twice.\<close>

fun fresh_uuids :: "string set \<Rightarrow> (env \<times> request) list \<Rightarrow> bool" where
  "fresh_uuids used [] = True"
| "fresh_uuids used ((e, r) # rs) = (uuid4 e \<notin> used \<and> fresh_uuids (insert (uuid4 e) used) rs)"

section \<open>A concrete environment and concrete stores\<close>

text \<open>
  What \<open>json.loads\<close> returns for the texts of the concrete runs below, one row for each
  text; the last row stands for the \<open>JSONDecodeError\<close> of a text that is not listed.
\<close>

definition recorded_loads :: "string \<Rightarrow> string + json" where
  \<open>recorded_loads text =
     (if text = ''{"a":1}'' then Inr (JDict [(''a'', JInt 1)])
      else if text = ''{"a": "`"}'' then Inr (JDict [(''a'', JStr [CHR 0x60])])
      else if text = ''{"a": ""}'' then Inr (JDict [(''a'', JStr [])])
      else if text = ''{"topic": "t", "difficulty": "d", "questions": [{"id": 1}]}''
        then Inr (JDict [(''topic'', JStr ''t''), (''difficulty'', JStr ''d''),
                         (''questions'', JList [JDict [(''id'', JInt 1)]])])
      else if text = ''{''
        then Inl ''Expecting property name enclosed in double quotes: line 1 column 2 (char 1)''
      else Inl ''Expecting value: line 1 column 1 (char 0)'')\<close>

text \<open>A fenced answer to the roadmap prompt.\<close>

definition fenced_answer :: string where
  \<open>fenced_answer = json_fence @ nl @ ''{"a":1}'' @ nl @ fence\<close>

text \<open>An answer to the quiz prompt with one question that has no options.\<close>

definition unchecked_answer :: string where
  \<open>unchecked_answer = ''{"topic": "t", "difficulty": "d", "questions": [{"id": 1}]}''\<close>

text \<open>An environment with no MongoDB configured, and a truth test that does not raise.\<close>

definition sample_env :: env where
  "sample_env =
     \<lparr>MONGODB_URI = None, MONGODB_DB_NAME = None, MONGODB_ROADMAP_COLLECTION = None,
      ping_raises = False, vertexai_imports = True, vertex_setup_raises = None,
      generate_content = (\<lambda>prompt. Inr fenced_answer), json_loads = recorded_loads,
      uuid4 = ''r2'', utcnow = 1700000000, database_bool_raises = None,
      insert_one = Inserted ''oid2'',
      find_raises = None, delete_one_raises = None, racing_delete = False\<rparr>"

text \<open>The same with the truth test of PyMongo 4.\<close>

definition pymongo4_env :: env where
  "pymongo4_env =
     sample_env\<lparr>database_bool_raises :=
       Some (''Database objects do not implement truth value testing or bool(). ''
             @ ''Please compare with None instead: database is not None'')\<rparr>"

definition sample_document :: roadmap_document where
  "sample_document =
     \<lparr>doc_oid = None, doc_id = ''r1'', doc_user_email = ''a@x.com'', doc_title = ''Become an ML Engineer'',
      doc_description = ''Python programmer'', doc_duration_weeks = Some 12,
      doc_created_at = Isoformat 1600000000, doc_data = JDict [(''a'', JInt 1)]\<rparr>"

definition memory_server :: server where
  "memory_server =
     \<lparr>client = None, db = None, collection_name = None, roadmap_collection = [],
      in_memory_roadmaps = [(''r1'', sample_document)]\<rparr>"

definition mongo_server :: server where
  "mongo_server =
     \<lparr>client = Some ''mongodb://localhost'', db = Some ''edvanta'', collection_name = Some ''roadmaps'',
      roadmap_collection =
        [sample_document\<lparr>doc_oid := Some ''oid1'', doc_created_at := Datetime 1600000000\<rparr>],
      in_memory_roadmaps = []\<rparr>"


section \<open>Facts about the string operations and the routes\<close>

lemma replace_single: "replace [c] [] s = filter (\<lambda>x. x \<noteq> c) s"
  by (induction s) auto

lemma contains_set: "contains sub s \<Longrightarrow> set sub \<subseteq> set s"
proof (induction s)
  case Nil
  then show ?case by simp
next
  case (Cons c cs)
  from Cons.prems have "prefix sub (c # cs) \<or> contains sub cs" by simp
  then show ?case
  proof
    assume "prefix sub (c # cs)"
    then show ?thesis by (rule set_mono_prefix)
  next
    assume "contains sub cs"
    with Cons.IH show ?thesis by auto
  qed
qed

lemma clean_markdown_spec: "clean_markdown raw = spec_normalize raw"
  by (simp add: clean_markdown_def spec_normalize_def remove_all_def Let_def replace_single)

lemma no_backtick_clean: "backtick \<notin> set (clean_markdown s)"
  by (simp add: clean_markdown_def Let_def replace_single)

lemma no_fence_without_backtick:
  assumes "backtick \<notin> set s"
  shows "\<not> contains fence s" and "\<not> contains json_fence s"
  using assms contains_set[of fence s] contains_set[of json_fence s]
  by (auto simp: fence_def json_fence_def)

lemma clean_id: "backtick \<notin> set s \<Longrightarrow> clean_markdown s = s"
  using no_fence_without_backtick[of s]
  by (auto simp add: clean_markdown_def Let_def replace_single filter_id_conv)

lemma clean_idem: "clean_markdown (clean_markdown s) = clean_markdown s"
  by (rule clean_id[OF no_backtick_clean])

lemma reconnect_stores [simp]:
  "roadmap_collection (reconnect e s) = roadmap_collection s"
  "in_memory_roadmaps (reconnect e s) = in_memory_roadmaps s"
  by (auto simp: reconnect_def split: prod.splits)

lemma generate_roadmap_valid:
  assumes "g \<noteq> []" "b \<noteq> []" "u \<noteq> []"
  shows "generate_roadmap e (Some g) (Some b) d (Some u) s0 = generate_checked e g b d u (reconnect e s0)"
  using assms by (simp add: generate_roadmap_def Let_def)

lemma generate_checked_parsed:
  assumes "vertexai_imports e" "vertex_setup_raises e = None"
    "generate_content e (prompt g b d) = Inr text"
    "json_loads e (clean_markdown text) = Inr roadmap_data"
  shows "generate_checked e g b d u s = persist e g b d u roadmap_data s"
  using assms by (simp add: generate_checked_def)

lemma map_of_update_same: "map_of (AList.update k v al) k = Some v"
  by (simp add: update_conv')


lemma clean_fenced_answer: \<open>clean_markdown fenced_answer = ''{"a":1}''\<close>
  by (simp add: clean_markdown_def fenced_answer_def json_fence_def fence_def backtick_def nl_def
      strip_def isspace_def)

lemma loads_fenced_answer: "recorded_loads (clean_markdown fenced_answer) = Inr (JDict [(''a'', JInt 1)])"
  by (simp add: clean_fenced_answer recorded_loads_def)

lemma reconnect_memory_server: "reconnect sample_env memory_server = memory_server"
  by (simp add: reconnect_def connect_to_mongodb_def sample_env_def memory_server_def)

lemma reconnect_connected: "db s \<noteq> None \<Longrightarrow> reconnect e s = s"
  by (auto simp: reconnect_def)

lemma mongo_server_connected: "db mongo_server \<noteq> None"
  by (simp add: mongo_server_def)

lemma reconnect_mongo_server: "reconnect e mongo_server = mongo_server"
  by (simp add: reconnect_connected mongo_server_connected)

lemma mongo_server_condition:
  "db_and_collection_name e mongo_server
     = (case database_bool_raises e of Some err \<Rightarrow> Inl err | None \<Rightarrow> Inr True)"
  by (simp add: db_and_collection_name_def mongo_server_def split: option.splits)

lemma memory_server_condition: "db_and_collection_name e memory_server = Inr False"
  by (simp add: db_and_collection_name_def memory_server_def)



section \<open>The response normalizer\<close>

lemma generate_checked_answer:
  assumes "vertexai_imports e" "vertex_setup_raises e = None"
    "generate_content e (prompt g b d) = Inr raw"
  shows "generate_checked e g b d u s =
     (case json_loads e (clean_markdown raw) of
        Inl err \<Rightarrow> (generation_failed err, s)
      | Inr roadmap_data \<Rightarrow> persist e g b d u roadmap_data s)"
  using assms by (simp add: generate_checked_def)

text \<open>
  Claim C6, as amended. The text the route parses is the raw answer cleaned as the
  specification says: with a JSON-tagged fence, all tagged and bare fences removed and the
  result stripped; otherwise, with a bare fence, those removed and the result stripped;
  then every backtick removed. When the reader accepts the cleaned text the route goes on
  to persist the parsed value; when it rejects it the response is 500 with the message
  \<open>Roadmap generation failed:\<close> followed by the reader's own exception text for the
  cleaned text, and nothing is stored.
\<close>

theorem normalizer_cleans_then_parses:
  assumes "g \<noteq> []" "b \<noteq> []" "u \<noteq> []"
    and "vertexai_imports e" "vertex_setup_raises e = None"
    and "generate_content e (prompt g b d) = Inr raw"
  shows "clean_markdown raw = spec_normalize raw
       \<and> (\<forall>roadmap_data. json_loads e (spec_normalize raw) = Inr roadmap_data \<longrightarrow>
             generate_roadmap e (Some g) (Some b) d (Some u) s0
               = persist e g b d u roadmap_data (reconnect e s0))
       \<and> (\<forall>err. json_loads e (spec_normalize raw) = Inl err \<longrightarrow>
             generate_roadmap e (Some g) (Some b) d (Some u) s0
               = ((Obj [(''error'', JStr (''Roadmap generation failed: '' @ err))], 500),
                  reconnect e s0))"
  using assms
  by (simp add: generate_roadmap_valid generate_checked_answer clean_markdown_spec
      generation_failed_def)

lemma clean_backtick_brace: "clean_markdown [CHR 0x60, CHR ''{''] = ''{''"
  by (simp add: clean_markdown_def fence_def json_fence_def backtick_def)

lemma clean_brace: "clean_markdown ''{'' = ''{''"
  by (simp add: clean_markdown_def fence_def json_fence_def backtick_def)

theorem normalizer_cleans_then_parses_witness:
  "clean_markdown fenced_answer = spec_normalize fenced_answer
   \<and> generate_roadmap sample_env (Some ''Become an ML Engineer'') (Some ''Python programmer'')
        (Some 12) (Some ''a@x.com'') memory_server
      = persist sample_env ''Become an ML Engineer'' ''Python programmer'' (Some 12) ''a@x.com''
          (JDict [(''a'', JInt 1)]) memory_server
   \<and> generate_roadmap (sample_env\<lparr>generate_content := \<lambda>prompt. Inr [CHR 0x60, CHR ''{'']\<rparr>)
        (Some ''Become an ML Engineer'') (Some ''Python programmer'') (Some 12) (Some ''a@x.com'')
        memory_server
      = ((Obj [(''error'', JStr (''Roadmap generation failed: ''
                  @ ''Expecting property name enclosed in double quotes: line 1 column 2 (char 1)''))],
          500), memory_server)"
proof -
  let ?g = "''Become an ML Engineer''" and ?b = "''Python programmer''" and ?u = "''a@x.com''"
  let ?e = "sample_env\<lparr>generate_content := \<lambda>prompt. Inr [CHR 0x60, CHR ''{'']\<rparr>"
  have rc: "reconnect ?e memory_server = memory_server"
    by (simp add: reconnect_def connect_to_mongodb_def sample_env_def memory_server_def)
  have a: "vertexai_imports sample_env" "vertex_setup_raises sample_env = None"
    "generate_content sample_env (prompt ?g ?b (Some 12)) = Inr fenced_answer"
    by (simp_all add: sample_env_def)
  have b: "vertexai_imports ?e" "vertex_setup_raises ?e = None"
    "generate_content ?e (prompt ?g ?b (Some 12)) = Inr [CHR 0x60, CHR ''{'']"
    by (simp_all add: sample_env_def)
  have l1: "json_loads sample_env (spec_normalize fenced_answer) = Inr (JDict [(''a'', JInt 1)])"
    using loads_fenced_answer by (simp add: clean_markdown_spec sample_env_def)
  have l2: "json_loads ?e (spec_normalize [CHR 0x60, CHR ''{''])
       = Inl ''Expecting property name enclosed in double quotes: line 1 column 2 (char 1)''"
    using clean_backtick_brace by (simp add: clean_markdown_spec sample_env_def recorded_loads_def)
  from normalizer_cleans_then_parses [of ?g ?b ?u sample_env "Some 12" fenced_answer memory_server, OF _ _ _ a] l1
  have 1: "clean_markdown fenced_answer = spec_normalize fenced_answer"
    and 2: "generate_roadmap sample_env (Some ?g) (Some ?b) (Some 12) (Some ?u) memory_server
      = persist sample_env ?g ?b (Some 12) ?u (JDict [(''a'', JInt 1)]) memory_server"
    by (simp_all add: reconnect_memory_server)
  from normalizer_cleans_then_parses [of ?g ?b ?u ?e "Some 12" "[CHR 0x60, CHR ''{'']" memory_server, OF _ _ _ b] l2
  have 3: "generate_roadmap ?e (Some ?g) (Some ?b) (Some 12) (Some ?u) memory_server
      = ((Obj [(''error'', JStr (''Roadmap generation failed: ''
                  @ ''Expecting property name enclosed in double quotes: line 1 column 2 (char 1)''))],
          500), memory_server)"
    by (simp add: rc)
  from 1 2 3 show ?thesis by simp
qed

text \<open>
  Claim C6 as stated fails: the failure does not carry the original raw text. The raw
  answers \<open>`{\<close> and \<open>{\<close> differ, both fail to parse, and both give the same 500
  response, whose message is the reader's text about the cleaned string.
\<close>

theorem parse_failure_does_not_carry_raw_text:
  "fst (generate_roadmap (sample_env\<lparr>generate_content := \<lambda>prompt. Inr [CHR 0x60, CHR ''{'']\<rparr>)
        (Some ''Become an ML Engineer'') (Some ''Python programmer'') (Some 12) (Some ''a@x.com'')
        memory_server)
     = (Obj [(''error'', JStr ''Roadmap generation failed: Expecting property name enclosed in double quotes: line 1 column 2 (char 1)'')], 500)
   \<and> fst (generate_roadmap (sample_env\<lparr>generate_content := \<lambda>prompt. Inr ''{''\<rparr>)
        (Some ''Become an ML Engineer'') (Some ''Python programmer'') (Some 12) (Some ''a@x.com'')
        memory_server)
     = (Obj [(''error'', JStr ''Roadmap generation failed: Expecting property name enclosed in double quotes: line 1 column 2 (char 1)'')], 500)"
proof -
  let ?g = "''Become an ML Engineer''" and ?b = "''Python programmer''"
  let ?e1 = "sample_env\<lparr>generate_content := \<lambda>prompt. Inr [CHR 0x60, CHR ''{'']\<rparr>"
  let ?e2 = "sample_env\<lparr>generate_content := \<lambda>prompt. Inr ''{''\<rparr>"
  have l: "recorded_loads ''{''
      = Inl ''Expecting property name enclosed in double quotes: line 1 column 2 (char 1)''"
    by (simp add: recorded_loads_def)
  have 1: "generate_checked ?e1 ?g ?b (Some 12) ''a@x.com'' s
      = (generation_failed ''Expecting property name enclosed in double quotes: line 1 column 2 (char 1)'', s)"
    for s
    by (subst generate_checked_answer [where raw = "[CHR 0x60, CHR ''{'']"])
      (simp_all add: sample_env_def clean_backtick_brace l)
  have 2: "generate_checked ?e2 ?g ?b (Some 12) ''a@x.com'' s
      = (generation_failed ''Expecting property name enclosed in double quotes: line 1 column 2 (char 1)'', s)"
    for s
    by (subst generate_checked_answer [where raw = "''{''"])
      (simp_all add: sample_env_def clean_brace l)
  show ?thesis
    by (simp add: generate_roadmap_valid 1 2 generation_failed_def)
qed

text \<open>
  Claim C7, as amended. For a text without any backtick the normalizer is the identity,
  so the parsed value is the one of the text itself; and normalizing twice is
  normalizing once, for every text.
\<close>

theorem normalizer_idempotent_without_backticks:
  "(backtick \<notin> set s \<longrightarrow>
      clean_markdown s = s \<and> json_loads e (clean_markdown s) = json_loads e s)
   \<and> clean_markdown (clean_markdown s) = clean_markdown s
   \<and> json_loads e (clean_markdown (clean_markdown s)) = json_loads e (clean_markdown s)"
  by (simp add: clean_id clean_idem)

theorem normalizer_idempotent_without_backticks_witness:
  \<open>CHR 0x60 \<notin> set ''{"a":1}''
   \<and> clean_markdown ''{"a":1}'' = ''{"a":1}''
   \<and> json_loads sample_env (clean_markdown ''{"a":1}'') = Inr (JDict [(''a'', JInt 1)])
   \<and> clean_markdown (clean_markdown fenced_answer) = ''{"a":1}''\<close>
proof -
  have nb: \<open>backtick \<notin> set ''{"a":1}''\<close> by (simp add: backtick_def)
  from normalizer_idempotent_without_backticks [of \<open>''{"a":1}''\<close> sample_env] nb
  have \<open>clean_markdown ''{"a":1}'' = ''{"a":1}''\<close>
    and \<open>json_loads sample_env (clean_markdown ''{"a":1}'') = json_loads sample_env ''{"a":1}''\<close>
    by simp_all
  moreover have \<open>json_loads sample_env ''{"a":1}'' = Inr (JDict [(''a'', JInt 1)])\<close>
    by (simp add: sample_env_def recorded_loads_def)
  moreover from normalizer_idempotent_without_backticks [of fenced_answer sample_env]
  have "clean_markdown (clean_markdown fenced_answer) = clean_markdown fenced_answer" by simp
  ultimately show ?thesis by (simp add: clean_fenced_answer)
qed

text \<open>
  Claim C7 as stated fails: a JSON text with no fence marker but a backtick inside a
  string loses the backtick, and parses to another value.
\<close>

theorem backtick_inside_json_changes_parse:
  \<open>\<not> contains fence ''{"a": "`"}'' \<and> \<not> contains json_fence ''{"a": "`"}''
   \<and> recorded_loads ''{"a": "`"}'' = Inr (JDict [(''a'', JStr [CHR 0x60])])
   \<and> recorded_loads (clean_markdown ''{"a": "`"}'') = Inr (JDict [(''a'', JStr [])])\<close>
  by (simp add: clean_markdown_def fence_def json_fence_def backtick_def recorded_loads_def)


section \<open>The quiz\<close>

lemma map_succ_upto: "map (\<lambda>i. i + 1) [a..b] = [a + 1..b + 1]"
proof (induction a b rule: upto.induct)
  case (1 i j)
  show ?case
  proof (cases "i \<le> j")
    case True
    with 1 show ?thesis by (simp add: upto_rec1 [of i j] upto_rec1 [of "i + 1" "j + 1"])
  next
    case False
    then show ?thesis by simp
  qed
qed

lemma hardcoded_questions:
  "questions (hardcoded_quiz topic difficulty n) = Some (map (hardcoded_question topic) [0..n - 1])"
  by (simp add: questions_def hardcoded_quiz_def)

lemma hardcoded_question_shape:
  "four_options (hardcoded_question topic i)"
  "answer_is_first_option (hardcoded_question topic i)"
  "getitem (hardcoded_question topic i) ''id'' = Some (JInt (i + 1))"
  by (simp_all add: four_options_def answer_is_first_option_def hardcoded_question_def)

lemma hardcoded_ids:
  "map (\<lambda>q. getitem q ''id'') (map (hardcoded_question topic) [0..n - 1])
     = map (\<lambda>i. Some (JInt i)) [1..n]"
proof -
  have "map (\<lambda>q. getitem q ''id'') (map (hardcoded_question topic) [0..n - 1])
      = map (\<lambda>i. Some (JInt i)) (map (\<lambda>i. i + 1) [0..n - 1])"
    by (simp add: hardcoded_question_shape comp_def)
  then show ?thesis by (simp add: map_succ_upto)
qed

text \<open>
  Claim C5. When the attempt with the model raises, or ends because the validation fails,
  \<open>create_quiz\<close> returns, without an error, the hardcoded quiz, which depends on the
  topic, the difficulty and the number only: its questions are as many as
  \<open>num_questions\<close> (none when it is negative), their ids are \<open>1\<close> to \<open>num_questions\<close>
  in order, each has four options, and its \<open>correctAnswer\<close> is its first option.
\<close>

theorem hardcoded_quiz_on_failure:
  assumes "(\<exists>err. ai_generation e topic difficulty num_questions = Inl err)
           \<or> ai_generation e topic difficulty num_questions = Inr None"
  shows "create_quiz e topic difficulty num_questions = Inr (hardcoded_quiz topic difficulty num_questions)
       \<and> (\<exists>qs. questions (hardcoded_quiz topic difficulty num_questions) = Some qs
              \<and> length qs = nat num_questions
              \<and> map (\<lambda>q. getitem q ''id'') qs = map (\<lambda>i. Some (JInt i)) [1..num_questions]
              \<and> (\<forall>q \<in> set qs. four_options q \<and> answer_is_first_option q))"
proof -
  from assms have "create_quiz e topic difficulty num_questions
      = Inr (hardcoded_quiz topic difficulty num_questions)"
    by (auto simp: create_quiz_def)
  moreover have "length (map (hardcoded_question topic) [0..num_questions - 1]) = nat num_questions"
    by simp
  moreover have "\<forall>q \<in> set (map (hardcoded_question topic) [0..num_questions - 1]).
      four_options q \<and> answer_is_first_option q"
    by (auto simp: hardcoded_question_shape)
  ultimately show ?thesis
    using hardcoded_questions [of topic difficulty num_questions] hardcoded_ids [of topic num_questions]
    by blast
qed

lemma str_int_1: "str_int 1 = ''1''" and str_int_2: "str_int 2 = ''2''"
  by code_simp+

lemma upto_0_1: "[0..1] = [0, 1::int]"
  by (simp add: upto_rec1)

lemma clean_response_fenced: \<open>strip (clean_response_text fenced_answer) = ''{"a":1}''\<close>
  by (simp add: clean_response_text_def fenced_answer_def strip_def isspace_def startswith_def
      endswith_def json_fence_def fence_def backtick_def nl_def suffix_to_prefix Let_def)

lemma attempt_not_validated: "ai_generation sample_env ''Graphs'' ''easy'' 1 = Inr None"
  by (simp add: ai_generation_def sample_env_def clean_response_fenced)
    (simp add: recorded_loads_def basic_validation_def)

theorem hardcoded_quiz_on_failure_witness:
  "create_quiz (sample_env\<lparr>generate_content := \<lambda>prompt. Inl ''503 unavailable''\<rparr>) ''Graphs'' ''easy'' 2
     = Inr (JDict
         [(''topic'', JStr ''Graphs''), (''difficulty'', JStr ''easy''),
          (''questions'', JList
             [JDict [(''id'', JInt 1), (''question'', JStr ''Sample question 1 for Graphs?''),
                     (''options'', JList [JStr ''Option A 1'', JStr ''Option B 1'',
                                          JStr ''Option C 1'', JStr ''Option D 1'']),
                     (''correctAnswer'', JStr ''Option A 1'')],
              JDict [(''id'', JInt 2), (''question'', JStr ''Sample question 2 for Graphs?''),
                     (''options'', JList [JStr ''Option A 2'', JStr ''Option B 2'',
                                          JStr ''Option C 2'', JStr ''Option D 2'']),
                     (''correctAnswer'', JStr ''Option A 2'')]])])
   \<and> create_quiz sample_env ''Graphs'' ''easy'' 1
     = Inr (JDict
         [(''topic'', JStr ''Graphs''), (''difficulty'', JStr ''easy''),
          (''questions'', JList
             [JDict [(''id'', JInt 1), (''question'', JStr ''Sample question 1 for Graphs?''),
                     (''options'', JList [JStr ''Option A 1'', JStr ''Option B 1'',
                                          JStr ''Option C 1'', JStr ''Option D 1'']),
                     (''correctAnswer'', JStr ''Option A 1'')]])])"
proof -
  let ?e = "sample_env\<lparr>generate_content := \<lambda>prompt. Inl ''503 unavailable''\<rparr>"
  have "ai_generation ?e ''Graphs'' ''easy'' 2 = Inl ''503 unavailable''"
    by (simp add: ai_generation_def sample_env_def)
  then have "(\<exists>err. ai_generation ?e ''Graphs'' ''easy'' 2 = Inl err)
           \<or> ai_generation ?e ''Graphs'' ''easy'' 2 = Inr None"
    by simp
  from hardcoded_quiz_on_failure [OF this]
  have 1: "create_quiz ?e ''Graphs'' ''easy'' 2 = Inr (hardcoded_quiz ''Graphs'' ''easy'' 2)"
    by simp
  have "(\<exists>err. ai_generation sample_env ''Graphs'' ''easy'' 1 = Inl err)
           \<or> ai_generation sample_env ''Graphs'' ''easy'' 1 = Inr None"
    by (simp add: attempt_not_validated)
  from hardcoded_quiz_on_failure [OF this]
  have 2: "create_quiz sample_env ''Graphs'' ''easy'' 1 = Inr (hardcoded_quiz ''Graphs'' ''easy'' 1)"
    by simp
  show ?thesis
    by (simp add: 1 2 hardcoded_quiz_def hardcoded_question_def upto_0_1 str_int_1 str_int_2)
qed

lemma basic_validation_True:
  assumes "basic_validation quiz_data n = Inr True"
  shows "\<exists>qs k. getitem quiz_data ''questions'' = Some qs \<and> len qs = Inr k \<and> int k = n"
  using assms
  by (auto simp: basic_validation_def split: if_splits option.splits sum.splits)

lemma ai_generation_Some:
  assumes "ai_generation e topic difficulty n = Inr (Some quiz)"
  shows "\<exists>qs k. getitem quiz ''questions'' = Some qs \<and> len qs = Inr k \<and> int k = n"
proof -
  from assms have "basic_validation quiz n = Inr True"
    by (auto simp: ai_generation_def split: option.splits sum.splits if_splits)
  then show ?thesis by (rule basic_validation_True)
qed

lemma hardcoded_quiz_len:
  assumes "0 \<le> n"
  shows "getitem (hardcoded_quiz topic difficulty n) ''questions''
           = Some (JList (map (hardcoded_question topic) [0..n - 1]))"
    and "len (JList (map (hardcoded_question topic) [0..n - 1])) = Inr (nat n)"
    and "int (nat n) = n"
  using assms by (simp_all add: hardcoded_quiz_def)

lemma ai_generation_accepts:
  "(ai_generation e topic difficulty n = Inr (Some quiz))
     = (vertex_setup_raises e = None
        \<and> (\<exists>text. generate_content e (quiz_prompt topic difficulty n) = Inr text
               \<and> json_loads e (strip (clean_response_text text)) = Inr quiz
               \<and> basic_validation quiz n = Inr True))"
  by (auto simp: ai_generation_def split: option.splits sum.splits if_splits)

text \<open>
  Claim C4, as amended. For \<open>num_questions\<close> at least 0, whatever the model does,
  \<open>create_quiz\<close> returns a quiz and no error, and the quiz has a \<open>questions\<close> member of
  length \<open>num_questions\<close>. When the model's answer is parsed and passes the basic
  validation, that answer is what \<open>create_quiz\<close> returns, as it is: nothing of it is
  checked but the three keys and the length. In every other case \<open>create_quiz\<close> returns the
  hardcoded quiz, whose questions are a list of \<open>num_questions\<close> entries with four options
  each.
\<close>

theorem create_quiz_total_with_counted_questions:
  assumes "0 \<le> num_questions"
  shows "\<exists>quiz qs k.
           create_quiz e topic difficulty num_questions = Inr quiz
         \<and> getitem quiz ''questions'' = Some qs \<and> len qs = Inr k \<and> int k = num_questions
         \<and> (\<forall>text accepted.
               vertex_setup_raises e = None
               \<and> generate_content e (quiz_prompt topic difficulty num_questions) = Inr text
               \<and> json_loads e (strip (clean_response_text text)) = Inr accepted
               \<and> basic_validation accepted num_questions = Inr True
               \<longrightarrow> quiz = accepted)
         \<and> ((\<nexists>text accepted.
               vertex_setup_raises e = None
               \<and> generate_content e (quiz_prompt topic difficulty num_questions) = Inr text
               \<and> json_loads e (strip (clean_response_text text)) = Inr accepted
               \<and> basic_validation accepted num_questions = Inr True)
             \<longrightarrow> quiz = hardcoded_quiz topic difficulty num_questions
                \<and> (\<exists>xs. qs = JList xs \<and> length xs = nat num_questions
                       \<and> (\<forall>q \<in> set xs. four_options q)))"
proof (cases "\<exists>quiz. ai_generation e topic difficulty num_questions = Inr (Some quiz)")
  case True
  then obtain quiz where q: "ai_generation e topic difficulty num_questions = Inr (Some quiz)" ..
  then have c: "create_quiz e topic difficulty num_questions = Inr quiz"
    by (simp add: create_quiz_def)
  from q obtain answer where t: "vertex_setup_raises e = None"
      "generate_content e (quiz_prompt topic difficulty num_questions) = Inr answer"
      "json_loads e (strip (clean_response_text answer)) = Inr quiz"
      "basic_validation quiz num_questions = Inr True"
    by (auto simp: ai_generation_accepts)
  have same: "quiz = accepted"
    if "generate_content e (quiz_prompt topic difficulty num_questions) = Inr text'"
      "json_loads e (strip (clean_response_text text')) = Inr accepted" for text' accepted
    using that t by simp
  from ai_generation_Some [OF q] obtain qs k
    where "getitem quiz ''questions'' = Some qs" "len qs = Inr k" "int k = num_questions"
    by blast
  with c same t show ?thesis by blast
next
  case False
  then have c: "create_quiz e topic difficulty num_questions
      = Inr (hardcoded_quiz topic difficulty num_questions)"
    by (auto simp: create_quiz_def split: sum.splits option.splits)
  from False have none: "\<not> (vertex_setup_raises e = None
               \<and> generate_content e (quiz_prompt topic difficulty num_questions) = Inr answer
               \<and> json_loads e (strip (clean_response_text answer)) = Inr accepted
               \<and> basic_validation accepted num_questions = Inr True)" for answer accepted
    by (auto simp: ai_generation_accepts)
  let ?xs = "map (hardcoded_question topic) [0..num_questions - 1]"
  have "\<forall>q \<in> set ?xs. four_options q"
    by (auto simp: hardcoded_question_shape)
  moreover have "length ?xs = nat num_questions" by simp
  ultimately show ?thesis
    using c none hardcoded_quiz_len [OF assms] by blast
qed

lemma clean_unchecked_answer: "strip (clean_response_text unchecked_answer) = unchecked_answer"
  by (simp add: clean_response_text_def unchecked_answer_def strip_def isspace_def startswith_def
      endswith_def json_fence_def fence_def backtick_def suffix_def Let_def)

lemma unchecked_answer_accepted:
  "vertex_setup_raises (sample_env\<lparr>generate_content := \<lambda>prompt. Inr unchecked_answer\<rparr>) = None"
  "generate_content (sample_env\<lparr>generate_content := \<lambda>prompt. Inr unchecked_answer\<rparr>) p
     = Inr unchecked_answer"
  "json_loads (sample_env\<lparr>generate_content := \<lambda>prompt. Inr unchecked_answer\<rparr>)
       (strip (clean_response_text unchecked_answer))
     = Inr (JDict [(''topic'', JStr ''t''), (''difficulty'', JStr ''d''),
                   (''questions'', JList [JDict [(''id'', JInt 1)]])])"
  "basic_validation (JDict [(''topic'', JStr ''t''), (''difficulty'', JStr ''d''),
                   (''questions'', JList [JDict [(''id'', JInt 1)]])]) 1 = Inr True"
  by (simp_all add: sample_env_def clean_unchecked_answer basic_validation_def)
    (simp add: recorded_loads_def unchecked_answer_def)

theorem create_quiz_total_with_counted_questions_witness:
  "create_quiz (sample_env\<lparr>generate_content := \<lambda>prompt. Inr unchecked_answer\<rparr>) ''t'' ''d'' 1
     = Inr (JDict [(''topic'', JStr ''t''), (''difficulty'', JStr ''d''),
                   (''questions'', JList [JDict [(''id'', JInt 1)]])])
   \<and> (\<exists>qs. create_quiz (sample_env\<lparr>generate_content := \<lambda>prompt. Inl ''503 unavailable''\<rparr>)
                ''Graphs'' ''easy'' 2
              = Inr (hardcoded_quiz ''Graphs'' ''easy'' 2)
            \<and> getitem (hardcoded_quiz ''Graphs'' ''easy'' 2) ''questions'' = Some qs
            \<and> len qs = Inr 2)"
proof -
  let ?e1 = "sample_env\<lparr>generate_content := \<lambda>prompt. Inr unchecked_answer\<rparr>"
  let ?e2 = "sample_env\<lparr>generate_content := \<lambda>prompt. Inl ''503 unavailable''\<rparr>"
  let ?quiz = "JDict [(''topic'', JStr ''t''), (''difficulty'', JStr ''d''),
                   (''questions'', JList [JDict [(''id'', JInt 1)]])]"
  have "(0::int) \<le> 1" by simp
  from create_quiz_total_with_counted_questions [OF this, of ?e1 "''t''" "''d''"]
  obtain quiz where q: "create_quiz ?e1 ''t'' ''d'' 1 = Inr quiz"
    and acc: "\<And>text accepted. vertex_setup_raises ?e1 = None
               \<and> generate_content ?e1 (quiz_prompt ''t'' ''d'' 1) = Inr text
               \<and> json_loads ?e1 (strip (clean_response_text text)) = Inr accepted
               \<and> basic_validation accepted 1 = Inr True
               \<Longrightarrow> quiz = accepted"
    by blast
  from acc [of unchecked_answer ?quiz] unchecked_answer_accepted
  have "quiz = ?quiz" by blast
  with q have 1: "create_quiz ?e1 ''t'' ''d'' 1 = Inr ?quiz" by simp
  have no: "\<nexists>text accepted. vertex_setup_raises ?e2 = None
               \<and> generate_content ?e2 (quiz_prompt ''Graphs'' ''easy'' 2) = Inr text
               \<and> json_loads ?e2 (strip (clean_response_text text)) = Inr accepted
               \<and> basic_validation accepted 2 = Inr True"
    by simp
  have "(0::int) \<le> 2" by simp
  from create_quiz_total_with_counted_questions [OF this, of ?e2 "''Graphs''" "''easy''"] no
  obtain quiz' qs k where "create_quiz ?e2 ''Graphs'' ''easy'' 2 = Inr quiz'"
    "getitem quiz' ''questions'' = Some qs" "len qs = Inr k" "int k = 2"
    "quiz' = hardcoded_quiz ''Graphs'' ''easy'' 2"
    by blast
  moreover from this have "k = 2" by simp
  ultimately have 2: "\<exists>qs. create_quiz ?e2 ''Graphs'' ''easy'' 2 = Inr (hardcoded_quiz ''Graphs'' ''easy'' 2)
            \<and> getitem (hardcoded_quiz ''Graphs'' ''easy'' 2) ''questions'' = Some qs
            \<and> len qs = Inr 2"
    by blast
  from 1 2 show ?thesis by simp
qed

text \<open>
  Claim C4 as stated fails: an answer of the model with the three members and one
  question is returned as it is, and its question has no options.
\<close>

theorem accepted_quiz_options_unchecked:
  "create_quiz (sample_env\<lparr>generate_content := \<lambda>prompt. Inr unchecked_answer\<rparr>) ''t'' ''d'' 1
     = Inr (JDict [(''topic'', JStr ''t''), (''difficulty'', JStr ''d''),
                   (''questions'', JList [JDict [(''id'', JInt 1)]])])
   \<and> questions (JDict [(''topic'', JStr ''t''), (''difficulty'', JStr ''d''),
                       (''questions'', JList [JDict [(''id'', JInt 1)]])])
       = Some [JDict [(''id'', JInt 1)]]
   \<and> \<not> four_options (JDict [(''id'', JInt 1)])"
proof -
  let ?e = "sample_env\<lparr>generate_content := \<lambda>prompt. Inr unchecked_answer\<rparr>"
  let ?quiz = "JDict [(''topic'', JStr ''t''), (''difficulty'', JStr ''d''),
                   (''questions'', JList [JDict [(''id'', JInt 1)]])]"
  have l: "recorded_loads unchecked_answer = Inr ?quiz"
    by (simp add: recorded_loads_def unchecked_answer_def)
  have v: "basic_validation ?quiz 1 = Inr True"
    by (simp add: basic_validation_def)
  have "ai_generation ?e ''t'' ''d'' 1 = Inr (Some ?quiz)"
    by (simp add: ai_generation_def sample_env_def clean_unchecked_answer l v)
  then show ?thesis
    by (simp add: create_quiz_def questions_def four_options_def)
qed


section \<open>The fallback roadmap when the Vertex SDK is missing\<close>

lemma generate_checked_no_vertexai:
  "\<not> vertexai_imports e \<Longrightarrow>
     generate_checked e g b d u s =
       ((Obj [(''roadmap'', fallback g b),
              (''note'', JStr ''AI service not available; returned a basic fallback roadmap.'')], 200), s)"
  by (simp add: generate_checked_def)

text \<open>
  What lines 90 to 105 return when the import inside the route fails: status 200, the graph
  with the four nodes \<open>start\<close>, \<open>fundamentals\<close>, \<open>project\<close>, \<open>goal\<close> and the three edges of
  the chain from \<open>start\<close> to \<open>goal\<close>, and a note.
\<close>

lemma fallback_branch:
  assumes "g \<noteq> []" "b \<noteq> []" "u \<noteq> []" and "\<not> vertexai_imports e"
  shows "fst (generate_roadmap e (Some g) (Some b) d (Some u) s0)
           = (Obj [(''roadmap'', fallback g b),
                   (''note'', JStr ''AI service not available; returned a basic fallback roadmap.'')], 200)
       \<and> node_ids (fallback g b)
           = [Some (JStr ''start''), Some (JStr ''fundamentals''), Some (JStr ''project''), Some (JStr ''goal'')]
       \<and> edge_pairs (fallback g b)
           = [(Some (JStr ''start''), Some (JStr ''fundamentals'')),
              (Some (JStr ''fundamentals''), Some (JStr ''project'')),
              (Some (JStr ''project''), Some (JStr ''goal''))]"
  using assms
  by (simp add: generate_roadmap_valid generate_checked_no_vertexai node_ids_def edge_pairs_def
      fallback_def node_def edge_def)

lemma persist_never_fallback:
  "fst (fst (persist e g b d u roadmap_data s))
     \<noteq> Obj [(''roadmap'', x),
             (''note'', JStr ''AI service not available; returned a basic fallback roadmap.'')]"
  by (simp add: persist_def Let_def generation_failed_def
      split: sum.splits bool.splits insert_outcome.splits option.splits prod.splits)

lemma generate_checked_never_fallback:
  assumes "vertexai_imports e"
  shows "fst (fst (generate_checked e g b d u s))
     \<noteq> Obj [(''roadmap'', x),
             (''note'', JStr ''AI service not available; returned a basic fallback roadmap.'')]"
  using assms persist_never_fallback [of e g b d u _ s x]
  by (simp add: generate_checked_def generation_failed_def split: option.splits sum.splits)

lemma generate_roadmap_never_fallback:
  assumes "vertexai_imports e"
  shows "fst (fst (generate_roadmap e goal background d user_email s))
     \<noteq> Obj [(''roadmap'', x),
             (''note'', JStr ''AI service not available; returned a basic fallback roadmap.'')]"
  using generate_checked_never_fallback [OF assms, of _ _ d _ "reconnect e s" x]
  by (simp add: generate_roadmap_def Let_def missing_goal_or_background_def missing_user_email_def
      split: option.splits)

text \<open>
  Claim C8. The claim asks, when \<open>vertexai\<close> cannot be imported, for status 200 with the
  fallback roadmap and a note. The code does not do it. With \<open>vertexai\<close> not importable the
  route module does not load, because line 18 runs \<open>ai_utils.py\<close> and that module imports
  \<open>vertexai\<close> at its top: the application gives no answer from this route. And whenever the
  module has loaded, the import inside the route succeeds, so no request, valid or not, is
  answered with the fallback roadmap and its note.
\<close>

theorem fallback_roadmap_is_never_answered:
  "post_generate False others_load e goal background duration_weeks user_email s = None
   \<and> post_generate vertexai_importable others_load e goal background duration_weeks user_email s
       \<noteq> Some ((Obj [(''roadmap'', x),
                      (''note'', JStr ''AI service not available; returned a basic fallback roadmap.'')],
                 200), s')"
proof -
  have "vertexai_imports (e\<lparr>vertexai_imports := True\<rparr>)" by simp
  from generate_roadmap_never_fallback [OF this, of goal background duration_weeks user_email s x]
  have "generate_roadmap (e\<lparr>vertexai_imports := True\<rparr>) goal background duration_weeks user_email s
       \<noteq> ((Obj [(''roadmap'', x),
                      (''note'', JStr ''AI service not available; returned a basic fallback roadmap.'')],
                 200), s')"
    by auto
  then show ?thesis
    by (simp add: post_generate_def roadmap_module_loads_def ai_utils_loads_def)
qed

theorem fallback_roadmap_is_never_answered_witness:
  "post_generate False True sample_env (Some ''Become an ML Engineer'') (Some ''Python programmer'')
     (Some 12) (Some ''a@x.com'') memory_server = None
   \<and> post_generate True True sample_env (Some ''Become an ML Engineer'') (Some ''Python programmer'')
       (Some 12) (Some ''a@x.com'') memory_server
       \<noteq> Some ((Obj [(''roadmap'', fallback ''Become an ML Engineer'' ''Python programmer''),
                      (''note'', JStr ''AI service not available; returned a basic fallback roadmap.'')],
                 200), memory_server)"
  using fallback_roadmap_is_never_answered [of True sample_env "Some ''Become an ML Engineer''"
      "Some ''Python programmer''" "Some 12" "Some ''a@x.com''" memory_server True
      "fallback ''Become an ML Engineer'' ''Python programmer''" memory_server]
  by simp

lemma find_in_set: "find P xs = Some x \<Longrightarrow> x \<in> set xs"
  by (auto simp: find_Some_iff)

lemma stored_reconnect [simp]: "stored (reconnect e s) = stored s"
  by (simp add: stored_def)

lemma snd_in_image: "(a, x) \<in> set xs \<Longrightarrow> x \<in> snd ` set xs"
  by force

lemma jsonify_roadmaps_Inr: "jsonify_roadmaps rs = Inr rs' \<Longrightarrow> rs' = rs"
  by (simp add: jsonify_roadmaps_def split: if_splits)

lemma shown_get_user_roadmaps: "shown (fst (fst (get_user_roadmaps e u s))) \<subseteq> stored s"
proof
  fix x
  assume "x \<in> shown (fst (fst (get_user_roadmaps e u s)))"
  then show "x \<in> stored s"
    by (auto simp: get_user_roadmaps_def Let_def stored_def missing_user_email_parameter_def
        retrieve_failed_def
        split: option.splits if_splits sum.splits bool.splits
        dest!: jsonify_roadmaps_Inr dest: snd_in_image)
qed

lemma shown_by_id_mongo: "shown (fst (fst (by_id_mongo e m rid u s))) \<subseteq> stored s"
proof
  fix x
  assume "x \<in> shown (fst (fst (by_id_mongo e m rid u s)))"
  then show "x \<in> stored s"
    by (auto simp: by_id_mongo_def stored_def deleted_def not_found_def operation_failed_def
        split: option.splits if_splits dest!: find_in_set)
qed

lemma shown_by_id_memory: "shown (fst (fst (by_id_memory e m rid u s))) \<subseteq> stored s"
proof
  fix x
  assume "x \<in> shown (fst (fst (by_id_memory e m rid u s)))"
  then show "x \<in> stored s"
    by (auto simp: by_id_memory_def stored_def deleted_def not_found_def operation_failed_def
        split: option.splits if_splits sum.splits dest!: find_in_set dest: snd_in_image)
qed

lemma shown_get_roadmap_by_id: "shown (fst (fst (get_roadmap_by_id e m rid u s))) \<subseteq> stored s"
proof -
  have "shown (fst (fst (by_id_mongo e m rid u' (reconnect e s)))) \<subseteq> stored s" for u'
    using shown_by_id_mongo [of e m rid u' "reconnect e s"] by simp
  moreover have "shown (fst (fst (by_id_memory e m rid u' (reconnect e s)))) \<subseteq> stored s" for u'
    using shown_by_id_memory [of e m rid u' "reconnect e s"] by simp
  ultimately show ?thesis
    by (simp add: get_roadmap_by_id_def Let_def missing_user_email_parameter_def operation_failed_def
        split: option.splits sum.splits bool.splits)
qed

text \<open>
  Claim C10. On that path nothing is persisted: the collection and the in-memory mapping
  are as before the request; the response does not depend on the identifier \<open>uuid4\<close>
  would give, the fallback graph has no \<open>id\<close> member and the response shows no stored
  roadmap; and every roadmap that a later listing or look-up shows was stored before the
  request.
\<close>

theorem fallback_roadmap_stores_nothing:
  assumes "g \<noteq> []" "b \<noteq> []" "u \<noteq> []" and "\<not> vertexai_imports e"
    and "generate_roadmap e (Some g) (Some b) d (Some u) s0 = (resp, s')"
  shows "roadmap_collection s' = roadmap_collection s0
       \<and> in_memory_roadmaps s' = in_memory_roadmaps s0
       \<and> (\<forall>x. fst (generate_roadmap (e\<lparr>uuid4 := x\<rparr>) (Some g) (Some b) d (Some u) s0) = resp)
       \<and> getitem (fallback g b) ''id'' = None
       \<and> shown (fst resp) = {}
       \<and> (\<forall>e2 u2. shown (fst (fst (get_user_roadmaps e2 u2 s'))) \<subseteq> stored s0)
       \<and> (\<forall>e2 m rid u2. shown (fst (fst (get_roadmap_by_id e2 m rid u2 s'))) \<subseteq> stored s0)"
proof -
  from assms have r: "resp = (Obj [(''roadmap'', fallback g b),
              (''note'', JStr ''AI service not available; returned a basic fallback roadmap.'')], 200)"
    and s': "s' = reconnect e s0"
    by (simp_all add: generate_roadmap_valid generate_checked_no_vertexai)
  have st: "stored s' = stored s0" by (simp add: s')
  have "fst (generate_roadmap (e\<lparr>uuid4 := x\<rparr>) (Some g) (Some b) d (Some u) s0) = resp" for x
    using assms(1-4) by (simp add: generate_roadmap_valid generate_checked_no_vertexai r)
  moreover have "shown (fst (fst (get_user_roadmaps e2 u2 s'))) \<subseteq> stored s0" for e2 u2
    using shown_get_user_roadmaps [of e2 u2 s'] by (simp add: st)
  moreover have "shown (fst (fst (get_roadmap_by_id e2 m rid u2 s'))) \<subseteq> stored s0" for e2 m rid u2
    using shown_get_roadmap_by_id [of e2 m rid u2 s'] by (simp add: st)
  ultimately show ?thesis
    by (simp add: s' r fallback_def)
qed

theorem fallback_roadmap_stores_nothing_witness:
  "(let r = generate_roadmap (sample_env\<lparr>vertexai_imports := False\<rparr>) (Some ''Become an ML Engineer'')
          (Some ''Python programmer'') (Some 12) (Some ''a@x.com'') memory_server
    in roadmap_collection (snd r) = [] \<and> in_memory_roadmaps (snd r) = [(''r1'', sample_document)]
       \<and> shown (fst (fst (get_user_roadmaps sample_env (Some ''a@x.com'') (snd r)))) \<subseteq> {sample_document})"
proof -
  let ?e = "sample_env\<lparr>vertexai_imports := False\<rparr>"
  let ?r = "generate_roadmap ?e (Some ''Become an ML Engineer'')
          (Some ''Python programmer'') (Some 12) (Some ''a@x.com'') memory_server"
  have "\<not> vertexai_imports ?e" by simp
  from fallback_roadmap_stores_nothing [of "''Become an ML Engineer''" "''Python programmer''" "''a@x.com''" ?e
      "Some 12" memory_server "fst ?r" "snd ?r", OF _ _ _ this]
  have "roadmap_collection (snd ?r) = roadmap_collection memory_server"
    "in_memory_roadmaps (snd ?r) = in_memory_roadmaps memory_server"
    "shown (fst (fst (get_user_roadmaps sample_env (Some ''a@x.com'') (snd ?r)))) \<subseteq> stored memory_server"
    by simp_all
  then show ?thesis
    by (simp add: Let_def) (simp add: memory_server_def stored_def)
qed


section \<open>The truth test of the database handle\<close>

lemma condition_raises:
  assumes "db s \<noteq> None" and "database_bool_raises e = Some err"
  shows "db_and_collection_name e s = Inl err"
  using assms by (auto simp: db_and_collection_name_def split: option.splits)

lemma pymongo4_raises:
  "database_bool_raises pymongo4_env
     = Some ''Database objects do not implement truth value testing or bool(). Please compare with None instead: database is not None''"
  by (simp add: pymongo4_env_def)

lemma pymongo4_parse:
  "vertexai_imports pymongo4_env" "vertex_setup_raises pymongo4_env = None"
  "generate_content pymongo4_env p = Inr fenced_answer"
  "json_loads pymongo4_env (clean_markdown fenced_answer) = Inr (JDict [(''a'', JInt 1)])"
  by (simp_all add: pymongo4_env_def sample_env_def loads_fenced_answer)

text \<open>
  With a connected handle whose truth test raises, a valid generate request whose answer
  is parsed gets the 500 of line 182, and the server is as the reconnect left it.
\<close>

lemma generate_with_raising_truth_test:
  assumes "g \<noteq> []" "b \<noteq> []" "u \<noteq> []"
    and "vertexai_imports e" "vertex_setup_raises e = None"
    and "generate_content e (prompt g b d) = Inr answer"
    and "json_loads e (clean_markdown answer) = Inr roadmap_data"
    and "db (reconnect e s0) \<noteq> None" and "database_bool_raises e = Some err"
  shows "generate_roadmap e (Some g) (Some b) d (Some u) s0
           = ((Obj [(''error'', JStr (''Roadmap generation failed: '' @ err))], 500), reconnect e s0)"
  using assms
  by (simp add: generate_roadmap_valid generate_checked_parsed persist_def Let_def
      condition_raises generation_failed_def)

text \<open>
  Claim C1. The claim asks, after a successful parse, for status 200 with the roadmap: with
  a warning and the record in the in-memory mapping when the write raises, with no note
  when the write succeeds. The code does not do it with a connected store: line 156 asks
  the \<open>Database\<close> handle for its truth value, PyMongo 4 raises \<open>NotImplementedError\<close> there,
  and the handler of line 181 answers 500. Neither \<open>insert_one\<close> nor the in-memory mapping
  is reached, whether the write would have succeeded or raised.
\<close>

theorem generate_with_connected_store_fails:
  "generate_roadmap pymongo4_env (Some ''Become an ML Engineer'') (Some ''Python programmer'')
       (Some 12) (Some ''b@x.com'') mongo_server
     = ((Obj [(''error'', JStr ''Roadmap generation failed: Database objects do not implement truth value testing or bool(). Please compare with None instead: database is not None'')],
         500), mongo_server)
   \<and> generate_roadmap (pymongo4_env\<lparr>insert_one := Raised ''timed out'' None\<rparr>)
       (Some ''Become an ML Engineer'') (Some ''Python programmer'')
       (Some 12) (Some ''b@x.com'') mongo_server
     = ((Obj [(''error'', JStr ''Roadmap generation failed: Database objects do not implement truth value testing or bool(). Please compare with None instead: database is not None'')],
         500), mongo_server)"
proof -
  let ?g = "''Become an ML Engineer''" and ?b = "''Python programmer''" and ?u = "''b@x.com''"
  let ?e = "pymongo4_env\<lparr>insert_one := Raised ''timed out'' None\<rparr>"
  have c: "db (reconnect e mongo_server) \<noteq> None" for e
    by (simp add: reconnect_mongo_server mongo_server_connected)
  have 1: "generate_roadmap pymongo4_env (Some ?g) (Some ?b) (Some 12) (Some ?u) mongo_server
     = ((Obj [(''error'', JStr (''Roadmap generation failed: '' @ ''Database objects do not implement truth value testing or bool(). Please compare with None instead: database is not None''))],
         500), reconnect pymongo4_env mongo_server)"
    by (rule generate_with_raising_truth_test [OF _ _ _ pymongo4_parse c pymongo4_raises]) simp_all
  have 2: "generate_roadmap ?e (Some ?g) (Some ?b) (Some 12) (Some ?u) mongo_server
     = ((Obj [(''error'', JStr (''Roadmap generation failed: '' @ ''Database objects do not implement truth value testing or bool(). Please compare with None instead: database is not None''))],
         500), reconnect ?e mongo_server)"
    by (rule generate_with_raising_truth_test [where answer = fenced_answer
          and roadmap_data = "JDict [(''a'', JInt 1)]"])
      (simp_all add: pymongo4_parse pymongo4_raises c)
  from 1 2 show ?thesis by (simp add: reconnect_mongo_server)
qed

theorem generate_with_connected_store_fails_witness:
  "snd (fst (generate_roadmap pymongo4_env (Some ''Become an ML Engineer'') (Some ''Python programmer'')
               (Some 12) (Some ''b@x.com'') mongo_server)) = 500
   \<and> in_memory_roadmaps
        (snd (generate_roadmap (pymongo4_env\<lparr>insert_one := Raised ''timed out'' None\<rparr>)
                (Some ''Become an ML Engineer'') (Some ''Python programmer'')
                (Some 12) (Some ''b@x.com'') mongo_server)) = []
   \<and> length (roadmap_collection
        (snd (generate_roadmap pymongo4_env (Some ''Become an ML Engineer'') (Some ''Python programmer'')
                (Some 12) (Some ''b@x.com'') mongo_server))) = 1"
  using generate_with_connected_store_fails by (simp add: mongo_server_def)

text \<open>
  With a connected handle whose truth test raises, a look-up or a deletion with an id and
  an email gets the 500 of line 281, whatever the collection holds.
\<close>

lemma by_id_with_raising_truth_test:
  assumes "roadmap_id \<noteq> []" "u \<noteq> []"
    and "db (reconnect e s0) \<noteq> None" and "database_bool_raises e = Some err"
  shows "get_roadmap_by_id e method roadmap_id (Some u) s0
           = ((Obj [(''error'', JStr (''Operation failed: '' @ err))], 500), reconnect e s0)"
  using assms
  by (simp add: get_roadmap_by_id_def Let_def condition_raises operation_failed_def)

text \<open>
  Claim C3. The claim asks for 404 \<open>Roadmap not found or access denied\<close> when a roadmap of
  owner \<open>A\<close> is asked for, or deleted, by another requester. The code does not answer it
  with a connected store: the roadmap \<open>r1\<close> of \<open>a@x.com\<close> is in the collection, \<open>b@x.com\<close>
  asks for it and then asks to delete it, line 239 asks the \<open>Database\<close> handle for its
  truth value, PyMongo 4 raises, and the handler of line 280 answers 500
  \<open>Operation failed\<close>. The filter of lines 243 and 244 is not reached.
\<close>

theorem foreign_roadmap_with_connected_store_fails:
  "get_roadmap_by_id pymongo4_env GET ''r1'' (Some ''b@x.com'') mongo_server
     = ((Obj [(''error'', JStr ''Operation failed: Database objects do not implement truth value testing or bool(). Please compare with None instead: database is not None'')],
         500), mongo_server)
   \<and> get_roadmap_by_id pymongo4_env DELETE ''r1'' (Some ''b@x.com'') mongo_server
     = ((Obj [(''error'', JStr ''Operation failed: Database objects do not implement truth value testing or bool(). Please compare with None instead: database is not None'')],
         500), mongo_server)
   \<and> map (\<lambda>roadmap. (doc_id roadmap, doc_user_email roadmap)) (roadmap_collection mongo_server)
       = [(''r1'', ''a@x.com'')]"
proof -
  have c: "db (reconnect pymongo4_env mongo_server) \<noteq> None"
    by (simp add: reconnect_mongo_server mongo_server_connected)
  have "get_roadmap_by_id pymongo4_env m ''r1'' (Some ''b@x.com'') mongo_server
     = ((Obj [(''error'', JStr (''Operation failed: '' @ ''Database objects do not implement truth value testing or bool(). Please compare with None instead: database is not None''))],
         500), reconnect pymongo4_env mongo_server)" for m
    by (rule by_id_with_raising_truth_test [OF _ _ c pymongo4_raises]) simp_all
  then show ?thesis
    by (simp add: reconnect_mongo_server) (simp add: mongo_server_def sample_document_def)
qed

theorem foreign_roadmap_with_connected_store_fails_witness:
  "snd (fst (get_roadmap_by_id pymongo4_env GET ''r1'' (Some ''b@x.com'') mongo_server)) = 500
   \<and> snd (fst (get_roadmap_by_id pymongo4_env DELETE ''r1'' (Some ''b@x.com'') mongo_server)) = 500"
  using foreign_roadmap_with_connected_store_fails by simp

section \<open>Deletion from the in-memory mapping\<close>

text \<open>
  Claim C9. The claim asks the deletion, after the look-up has found the roadmap, to check
  that something was deleted and to signal an internal failure when nothing was, on both
  branches. The MongoDB branch does it at lines 254 to 257. The in-memory branch does not:
  lines 275 and 276 call \<open>pop(id, None)\<close> and return the success flag. Here \<open>a@x.com\<close>
  deletes the roadmap \<open>r1\<close>, another request removes it between the look-up and the
  \<open>pop\<close>, the \<open>pop\<close> finds the mapping empty and returns \<open>None\<close>, and the answer is 200
  with the success flag.
\<close>

theorem memory_delete_succeeds_without_removal:
  "find (\<lambda>(rid, roadmap). owned ''r1'' ''a@x.com'' roadmap) (in_memory_roadmaps memory_server)
     = Some (''r1'', sample_document)
   \<and> memory_at_pop (sample_env\<lparr>racing_delete := True\<rparr>) ''r1'' memory_server = []
   \<and> pop ''r1'' (memory_at_pop (sample_env\<lparr>racing_delete := True\<rparr>) ''r1'' memory_server) = (None, [])
   \<and> get_roadmap_by_id (sample_env\<lparr>racing_delete := True\<rparr>) DELETE ''r1'' (Some ''a@x.com'')
        memory_server
     = ((Obj [(''success'', JBool True), (''message'', JStr ''Roadmap deleted successfully'')], 200),
        memory_server\<lparr>in_memory_roadmaps := []\<rparr>)"
proof -
  let ?e = "sample_env\<lparr>racing_delete := True\<rparr>"
  have rc: "reconnect ?e memory_server = memory_server"
    by (simp add: reconnect_def connect_to_mongodb_def sample_env_def memory_server_def)
  have m: "in_memory_roadmaps memory_server = [(''r1'', sample_document)]"
    by (simp add: memory_server_def)
  have o: "owned ''r1'' ''a@x.com'' sample_document" "doc_id sample_document = ''r1''"
    by (simp_all add: owned_def sample_document_def)
  have f: "find (\<lambda>(rid, roadmap). owned ''r1'' ''a@x.com'' roadmap) (in_memory_roadmaps memory_server)
     = Some (''r1'', sample_document)"
    by (simp add: m o)
  have r: "racing_delete ?e" by simp
  have p: "memory_at_pop ?e ''r1'' memory_server = []"
    by (simp add: memory_at_pop_def pop_def m)
  have q: "pop ''r1'' [] = (None, ([] :: (string \<times> roadmap_document) list))"
    by (simp add: pop_def)
  have "by_id_memory ?e DELETE ''r1'' ''a@x.com'' memory_server
      = (deleted, memory_server\<lparr>in_memory_roadmaps := []\<rparr>)"
    by (simp add: by_id_memory_def f o p q)
  then have "get_roadmap_by_id ?e DELETE ''r1'' (Some ''a@x.com'') memory_server
     = (deleted, memory_server\<lparr>in_memory_roadmaps := []\<rparr>)"
    by (simp add: get_roadmap_by_id_def Let_def rc memory_server_condition)
  with f p q show ?thesis by (simp add: deleted_def)
qed

theorem memory_delete_succeeds_without_removal_witness:
  "snd (fst (get_roadmap_by_id (sample_env\<lparr>racing_delete := True\<rparr>) DELETE ''r1'' (Some ''a@x.com'')
               memory_server)) = 200"
  using memory_delete_succeeds_without_removal by simp


section \<open>Where a new roadmap is stored, and where it stays\<close>

lemma update_values: "snd ` set (AList.update k v al) \<subseteq> insert v (snd ` set al)"
  by (induction al) auto

lemma update_member: "(k, v) \<in> set (AList.update k v al)"
  by (induction al) auto

lemma update_keeps: "(k, v) \<in> set al \<Longrightarrow> k \<noteq> k' \<Longrightarrow> (k, v) \<in> set (AList.update k' v' al)"
  by (induction al) auto

lemma delete_subset: "set (AList.delete k al) \<subseteq> set al"
  by (auto simp: AList.delete_eq)

lemma delete_keeps: "(k, v) \<in> set al \<Longrightarrow> k \<noteq> k' \<Longrightarrow> (k, v) \<in> set (AList.delete k' al)"
  by (auto simp: AList.delete_eq)

lemma delete_one_subset: "set (snd (delete_one P xs)) \<subseteq> set xs"
  by (induction xs) (auto split: prod.splits)

lemma delete_one_keeps: "x \<in> set xs \<Longrightarrow> \<not> P x \<Longrightarrow> x \<in> set (snd (delete_one P xs))"
  by (induction xs) (auto split: prod.splits)

lemma ids_reconnect [simp]:
  "mongo_ids (reconnect e s) = mongo_ids s" "memory_ids (reconnect e s) = memory_ids s"
  by (simp_all add: mongo_ids_def memory_ids_def)

lemma mongo_ids_append:
  "mongo_ids (s\<lparr>roadmap_collection := roadmap_collection s @ [x]\<rparr>) = insert (doc_id x) (mongo_ids s)"
  by (simp add: mongo_ids_def)

lemma memory_ids_collection [simp]:
  "memory_ids (s\<lparr>roadmap_collection := xs\<rparr>) = memory_ids s"
  by (simp add: memory_ids_def)

lemma store_in_memory_collection [simp]:
  "roadmap_collection (store_in_memory doc s) = roadmap_collection s"
  by (simp add: store_in_memory_def)

lemma store_in_memory_mongo_ids [simp]: "mongo_ids (store_in_memory doc s) = mongo_ids s"
  by (simp add: mongo_ids_def)

lemma store_in_memory_entry:
  "\<exists>v. (doc_id doc, v) \<in> set (in_memory_roadmaps (store_in_memory doc s)) \<and> doc_id v = doc_id doc"
proof -
  let ?v = "doc\<lparr>doc_created_at := Isoformat (instant (doc_created_at doc))\<rparr>"
  have "(doc_id doc, ?v) \<in> set (in_memory_roadmaps (store_in_memory doc s))"
    by (simp add: store_in_memory_def update_member)
  moreover have "doc_id ?v = doc_id doc" by simp
  ultimately show ?thesis by blast
qed

lemma store_in_memory_has: "doc_id doc \<in> memory_ids (store_in_memory doc s)"
proof -
  from store_in_memory_entry [of doc s] obtain v
    where "(doc_id doc, v) \<in> set (in_memory_roadmaps (store_in_memory doc s))" "doc_id v = doc_id doc"
    by blast
  then have "doc_id (snd (doc_id doc, v)) \<in> doc_id ` snd ` set (in_memory_roadmaps (store_in_memory doc s))"
    by (intro imageI)
  with \<open>doc_id v = doc_id doc\<close> show ?thesis by (simp add: memory_ids_def)
qed

lemma store_in_memory_ids: "memory_ids (store_in_memory doc s) \<subseteq> insert (doc_id doc) (memory_ids s)"
proof -
  let ?v = "doc\<lparr>doc_created_at := Isoformat (instant (doc_created_at doc))\<rparr>"
  have "doc_id ` snd ` set (AList.update (doc_id doc) ?v (in_memory_roadmaps s))
      \<subseteq> doc_id ` insert ?v (snd ` set (in_memory_roadmaps s))"
    by (rule image_mono) (rule update_values)
  then show ?thesis by (simp add: store_in_memory_def memory_ids_def)
qed

lemma store_in_memory_keeps:
  "(k, v) \<in> set (in_memory_roadmaps s) \<Longrightarrow> k \<noteq> doc_id doc
     \<Longrightarrow> (k, v) \<in> set (in_memory_roadmaps (store_in_memory doc s))"
  by (simp add: store_in_memory_def update_keeps)

text \<open>The four ways \<open>persist\<close> ends with status 200, and the one with status 500.\<close>

lemma persist_cases:
  fixes e g b d u roadmap_data s
  defines "doc \<equiv> \<lparr>doc_oid = None, doc_id = uuid4 e, doc_user_email = u, doc_title = g,
             doc_description = b, doc_duration_weeks = d,
             doc_created_at = Datetime (utcnow e), doc_data = roadmap_data\<rparr>"
  shows "(\<exists>err. db_and_collection_name e s = Inl err
            \<and> persist e g b d u roadmap_data s = (generation_failed err, s))
       \<or> (db_and_collection_name e s = Inr False
            \<and> snd (fst (persist e g b d u roadmap_data s)) = 200
            \<and> snd (persist e g b d u roadmap_data s) = store_in_memory doc s)
       \<or> (\<exists>oid. db_and_collection_name e s = Inr True \<and> insert_one e = Inserted oid
            \<and> snd (fst (persist e g b d u roadmap_data s)) = 200
            \<and> snd (persist e g b d u roadmap_data s)
                = s\<lparr>roadmap_collection := roadmap_collection s @ [doc\<lparr>doc_oid := Some oid\<rparr>]\<rparr>)
       \<or> (\<exists>err p. db_and_collection_name e s = Inr True \<and> insert_one e = Raised err p
            \<and> (\<forall>oid. p \<noteq> Some (oid, True))
            \<and> snd (fst (persist e g b d u roadmap_data s)) = 200
            \<and> (\<exists>oid'. snd (persist e g b d u roadmap_data s)
                  = store_in_memory (doc\<lparr>doc_oid := oid'\<rparr>) s))
       \<or> (\<exists>err oid. db_and_collection_name e s = Inr True
            \<and> insert_one e = Raised err (Some (oid, True))
            \<and> snd (fst (persist e g b d u roadmap_data s)) = 200
            \<and> snd (persist e g b d u roadmap_data s)
                = store_in_memory (doc\<lparr>doc_oid := Some oid\<rparr>)
                    (s\<lparr>roadmap_collection := roadmap_collection s @ [doc\<lparr>doc_oid := Some oid\<rparr>]\<rparr>))"
proof (cases "db_and_collection_name e s")
  case (Inl err)
  then show ?thesis by (simp add: persist_def Let_def)
next
  case (Inr c)
  show ?thesis
  proof (cases c)
    case False
    with Inr show ?thesis by (simp add: persist_def Let_def doc_def)
  next
    case True
    show ?thesis
    proof (cases "insert_one e")
      case (Inserted oid)
      with Inr True show ?thesis by (simp add: persist_def Let_def doc_def)
    next
      case (Raised err p)
      show ?thesis
      proof (cases p)
        case None
        have "doc\<lparr>doc_oid := None\<rparr> = doc" by (simp add: doc_def)
        with Inr True Raised None show ?thesis
          by (auto simp: persist_def Let_def doc_def)
      next
        case (Some a)
        obtain oid applied where a: "a = (oid, applied)" by (cases a)
        show ?thesis
        proof (cases applied)
          case True': True
          with Inr True Raised Some a show ?thesis by (simp add: persist_def Let_def doc_def)
        next
          case False
          with Inr True Raised Some a show ?thesis
            by (auto simp: persist_def Let_def doc_def)
        qed
      qed
    qed
  qed
qed

lemma generation_failed_status: "snd (generation_failed err) = 500"
  by (simp add: generation_failed_def)

lemma persist_placement:
  assumes "uuid4 e \<notin> mongo_ids s" "uuid4 e \<notin> memory_ids s"
    and "snd (fst (persist e g b d u roadmap_data s)) = 200"
    and "s1 = snd (persist e g b d u roadmap_data s)"
  shows "(uuid4 e \<in> mongo_ids s1)
           = (db_and_collection_name e s = Inr True
              \<and> (\<exists>oid. insert_one e = Inserted oid
                     \<or> (\<exists>err. insert_one e = Raised err (Some (oid, True)))))"
    and "(uuid4 e \<in> memory_ids s1)
           = (db_and_collection_name e s = Inr False
              \<or> db_and_collection_name e s = Inr True \<and> (\<exists>err p. insert_one e = Raised err p))"
    and "uuid4 e \<in> memory_ids s1
           \<longrightarrow> (\<exists>v. (uuid4 e, v) \<in> set (in_memory_roadmaps s1) \<and> doc_id v = uuid4 e)"
proof -
  let ?doc = "\<lparr>doc_oid = None, doc_id = uuid4 e, doc_user_email = u, doc_title = g,
             doc_description = b, doc_duration_weeks = d,
             doc_created_at = Datetime (utcnow e), doc_data = roadmap_data\<rparr>"
  have id: "doc_id (?doc\<lparr>doc_oid := x\<rparr>) = uuid4 e" "doc_id ?doc = uuid4 e" for x by simp_all
  note has = store_in_memory_has [of "?doc\<lparr>doc_oid := x\<rparr>" for x, unfolded id]
    store_in_memory_has [of ?doc, unfolded id]
  note ent = store_in_memory_entry [of "?doc\<lparr>doc_oid := x\<rparr>" for x, unfolded id]
    store_in_memory_entry [of ?doc, unfolded id]
  from persist_cases [of e s g b d u roadmap_data] assms(3)
  consider
      (memory) "db_and_collection_name e s = Inr False" "s1 = store_in_memory ?doc s"
    | (written) oid where "db_and_collection_name e s = Inr True" "insert_one e = Inserted oid"
        "s1 = s\<lparr>roadmap_collection := roadmap_collection s @ [?doc\<lparr>doc_oid := Some oid\<rparr>]\<rparr>"
    | (raised) err p oid' where "db_and_collection_name e s = Inr True" "insert_one e = Raised err p"
        "\<forall>oid. p \<noteq> Some (oid, True)" "s1 = store_in_memory (?doc\<lparr>doc_oid := oid'\<rparr>) s"
    | (both) err oid where "db_and_collection_name e s = Inr True"
        "insert_one e = Raised err (Some (oid, True))"
        "s1 = store_in_memory (?doc\<lparr>doc_oid := Some oid\<rparr>)
                (s\<lparr>roadmap_collection := roadmap_collection s @ [?doc\<lparr>doc_oid := Some oid\<rparr>]\<rparr>)"
    unfolding assms(4) by (auto simp: generation_failed_status)
  then have "((uuid4 e \<in> mongo_ids s1)
           = (db_and_collection_name e s = Inr True
              \<and> (\<exists>oid. insert_one e = Inserted oid
                     \<or> (\<exists>err. insert_one e = Raised err (Some (oid, True))))))
     \<and> ((uuid4 e \<in> memory_ids s1)
           = (db_and_collection_name e s = Inr False
              \<or> db_and_collection_name e s = Inr True \<and> (\<exists>err p. insert_one e = Raised err p)))
     \<and> (uuid4 e \<in> memory_ids s1
           \<longrightarrow> (\<exists>v. (uuid4 e, v) \<in> set (in_memory_roadmaps s1) \<and> doc_id v = uuid4 e))"
  proof cases
    case memory
    with assms(1) has ent show ?thesis by simp
  next
    case written
    with assms(2) show ?thesis by (simp add: mongo_ids_append)
  next
    case raised
    with assms(1) has ent show ?thesis by auto
  next
    case both
    with has ent show ?thesis by (auto simp: mongo_ids_append)
  qed
  then show "(uuid4 e \<in> mongo_ids s1)
           = (db_and_collection_name e s = Inr True
              \<and> (\<exists>oid. insert_one e = Inserted oid
                     \<or> (\<exists>err. insert_one e = Raised err (Some (oid, True)))))"
    and "(uuid4 e \<in> memory_ids s1)
           = (db_and_collection_name e s = Inr False
              \<or> db_and_collection_name e s = Inr True \<and> (\<exists>err p. insert_one e = Raised err p))"
    and "uuid4 e \<in> memory_ids s1
           \<longrightarrow> (\<exists>v. (uuid4 e, v) \<in> set (in_memory_roadmaps s1) \<and> doc_id v = uuid4 e)"
    by blast+
qed

text \<open>No request puts an identifier into a store, other than the one \<open>uuid4\<close> gives it.\<close>

lemma store_in_memory_ids_in:
  assumes "doc_id doc = k" and "memory_ids s' = memory_ids s"
  shows "memory_ids (store_in_memory doc s') \<subseteq> insert k (memory_ids s)"
  using store_in_memory_ids [of doc s'] assms by simp

lemma persist_ids:
  "mongo_ids (snd (persist e g b d u roadmap_data s)) \<subseteq> insert (uuid4 e) (mongo_ids s)"
  "memory_ids (snd (persist e g b d u roadmap_data s)) \<subseteq> insert (uuid4 e) (memory_ids s)"
proof -
  from persist_cases [of e s g b d u roadmap_data]
  show "mongo_ids (snd (persist e g b d u roadmap_data s)) \<subseteq> insert (uuid4 e) (mongo_ids s)"
    by (auto simp: mongo_ids_append)
  from persist_cases [of e s g b d u roadmap_data]
  show "memory_ids (snd (persist e g b d u roadmap_data s)) \<subseteq> insert (uuid4 e) (memory_ids s)"
    by (elim disjE exE conjE) (simp_all add: store_in_memory_ids_in subset_insertI)
qed

lemma persist_keeps:
  "set (roadmap_collection s) \<subseteq> set (roadmap_collection (snd (persist e g b d u roadmap_data s)))"
  "(k, v) \<in> set (in_memory_roadmaps s) \<Longrightarrow> k \<noteq> uuid4 e
     \<Longrightarrow> (k, v) \<in> set (in_memory_roadmaps (snd (persist e g b d u roadmap_data s)))"
proof -
  from persist_cases [of e s g b d u roadmap_data]
  show "set (roadmap_collection s) \<subseteq> set (roadmap_collection (snd (persist e g b d u roadmap_data s)))"
    by auto
  assume kv: "(k, v) \<in> set (in_memory_roadmaps s)" "k \<noteq> uuid4 e"
  then have keep: "(k, v) \<in> set (in_memory_roadmaps (store_in_memory doc s'))"
    if "doc_id doc = uuid4 e" "in_memory_roadmaps s' = in_memory_roadmaps s" for doc s'
    using that store_in_memory_keeps [of k v s' doc] by simp
  from persist_cases [of e s g b d u roadmap_data]
  show "(k, v) \<in> set (in_memory_roadmaps (snd (persist e g b d u roadmap_data s)))"
    by (elim disjE exE conjE) (simp_all add: kv keep)
qed

lemma generate_checked_ids:
  "mongo_ids (snd (generate_checked e g b d u s)) \<subseteq> insert (uuid4 e) (mongo_ids s)"
  "memory_ids (snd (generate_checked e g b d u s)) \<subseteq> insert (uuid4 e) (memory_ids s)"
  using persist_ids [of e g b d u _ s]
  by (auto simp: generate_checked_def split: option.splits sum.splits)

lemma generate_checked_keeps:
  "set (roadmap_collection s) \<subseteq> set (roadmap_collection (snd (generate_checked e g b d u s)))"
  "(k, v) \<in> set (in_memory_roadmaps s) \<Longrightarrow> k \<noteq> uuid4 e
     \<Longrightarrow> (k, v) \<in> set (in_memory_roadmaps (snd (generate_checked e g b d u s)))"
  using persist_keeps(1) [of s e g b d u] persist_keeps(2) [of k v s e g b d u]
  by (auto simp: generate_checked_def split: option.splits sum.splits)

lemma generate_roadmap_ids:
  "mongo_ids (snd (generate_roadmap e goal background d user_email s)) \<subseteq> insert (uuid4 e) (mongo_ids s)"
  "memory_ids (snd (generate_roadmap e goal background d user_email s)) \<subseteq> insert (uuid4 e) (memory_ids s)"
  using generate_checked_ids [of e _ _ d _ "reconnect e s"]
  by (auto simp: generate_roadmap_def Let_def split: option.splits)

lemma generate_roadmap_keeps:
  "set (roadmap_collection s)
     \<subseteq> set (roadmap_collection (snd (generate_roadmap e goal background d user_email s)))"
  "(k, v) \<in> set (in_memory_roadmaps s) \<Longrightarrow> k \<noteq> uuid4 e
     \<Longrightarrow> (k, v) \<in> set (in_memory_roadmaps (snd (generate_roadmap e goal background d user_email s)))"
  using generate_checked_keeps(1) [of "reconnect e s" e _ _ d]
    generate_checked_keeps(2) [of k v "reconnect e s" e _ _ d]
  by (auto simp: generate_roadmap_def Let_def split: option.splits)

lemma get_user_roadmaps_state: "snd (get_user_roadmaps e u s) = reconnect e s"
  by (simp add: get_user_roadmaps_def Let_def split: option.splits sum.splits bool.splits)

lemma by_id_mongo_stores:
  "set (roadmap_collection (snd (by_id_mongo e m rid u s))) \<subseteq> set (roadmap_collection s)"
  "in_memory_roadmaps (snd (by_id_mongo e m rid u s)) = in_memory_roadmaps s"
  "x \<in> set (roadmap_collection s) \<Longrightarrow> \<not> (m = DELETE \<and> doc_id x = rid)
     \<Longrightarrow> x \<in> set (roadmap_collection (snd (by_id_mongo e m rid u s)))"
proof -
  have c: "set (collection_at_delete e rid u s) \<subseteq> set (roadmap_collection s)"
    using delete_one_subset [of "owned rid u" "roadmap_collection s"]
    by (simp add: collection_at_delete_def)
  have d: "set (snd (delete_one (owned rid u) (collection_at_delete e rid u s)))
      \<subseteq> set (roadmap_collection s)"
    using delete_one_subset [of "owned rid u" "collection_at_delete e rid u s"] c by blast
  show "set (roadmap_collection (snd (by_id_mongo e m rid u s))) \<subseteq> set (roadmap_collection s)"
    using c d by (auto simp: by_id_mongo_def split: option.splits)
  show "in_memory_roadmaps (snd (by_id_mongo e m rid u s)) = in_memory_roadmaps s"
    by (auto simp: by_id_mongo_def split: option.splits)
  assume x: "x \<in> set (roadmap_collection s)" "\<not> (m = DELETE \<and> doc_id x = rid)"
  show "x \<in> set (roadmap_collection (snd (by_id_mongo e m rid u s)))"
  proof (cases "m = DELETE")
    case False
    with x show ?thesis by (auto simp: by_id_mongo_def split: option.splits)
  next
    case True
    with x have n: "\<not> owned rid u x" by (simp add: owned_def)
    from x(1) n have k1: "x \<in> set (collection_at_delete e rid u s)"
      by (simp add: collection_at_delete_def delete_one_keeps)
    from k1 n have k2: "x \<in> set (snd (delete_one (owned rid u) (collection_at_delete e rid u s)))"
      by (rule delete_one_keeps)
    from x(1) k1 k2 show ?thesis by (auto simp: by_id_mongo_def split: option.splits)
  qed
qed

lemma by_id_memory_stores:
  "roadmap_collection (snd (by_id_memory e m rid u s)) = roadmap_collection s"
  "set (in_memory_roadmaps (snd (by_id_memory e m rid u s))) \<subseteq> set (in_memory_roadmaps s)"
  "(k, v) \<in> set (in_memory_roadmaps s) \<Longrightarrow> \<not> (m = DELETE \<and> k = rid)
     \<Longrightarrow> (k, v) \<in> set (in_memory_roadmaps (snd (by_id_memory e m rid u s)))"
proof -
  have p: "set (snd (pop k' (memory_at_pop e k' s))) \<subseteq> set (in_memory_roadmaps s)" for k'
    using delete_subset [of k' "in_memory_roadmaps s"]
      delete_subset [of k' "AList.delete k' (in_memory_roadmaps s)"]
    by (auto simp: pop_def memory_at_pop_def)
  show "roadmap_collection (snd (by_id_memory e m rid u s)) = roadmap_collection s"
    by (auto simp: by_id_memory_def split: option.splits sum.splits)
  show "set (in_memory_roadmaps (snd (by_id_memory e m rid u s))) \<subseteq> set (in_memory_roadmaps s)"
    using p by (auto simp: by_id_memory_def split: option.splits sum.splits)
  assume kv: "(k, v) \<in> set (in_memory_roadmaps s)" "\<not> (m = DELETE \<and> k = rid)"
  show "(k, v) \<in> set (in_memory_roadmaps (snd (by_id_memory e m rid u s)))"
  proof (cases "m = DELETE")
    case False
    with kv show ?thesis by (auto simp: by_id_memory_def split: option.splits sum.splits)
  next
    case True
    with kv have ne: "k \<noteq> rid" by simp
    have q: "(k, v) \<in> set (snd (pop rid (memory_at_pop e rid s)))"
      using kv(1) ne by (auto simp: pop_def memory_at_pop_def delete_keeps)
    show ?thesis
    proof (cases "find (\<lambda>(rid', roadmap). owned rid u roadmap) (in_memory_roadmaps s)")
      case None
      with kv show ?thesis by (simp add: by_id_memory_def)
    next
      case (Some a)
      obtain rid' r where a: "a = (rid', r)" by (cases a)
      from Some a have "owned rid u r" by (auto simp: find_Some_iff)
      then have "doc_id r = rid" by (simp add: owned_def)
      with Some a True q show ?thesis by (simp add: by_id_memory_def)
    qed
  qed
qed

lemma get_roadmap_by_id_state:
  "snd (get_roadmap_by_id e m rid u s) = reconnect e s
   \<or> (\<exists>u'. snd (get_roadmap_by_id e m rid u s) = snd (by_id_mongo e m rid u' (reconnect e s)))
   \<or> (\<exists>u'. snd (get_roadmap_by_id e m rid u s) = snd (by_id_memory e m rid u' (reconnect e s)))"
  by (auto simp: get_roadmap_by_id_def Let_def split: option.splits sum.splits bool.splits)

lemma handle_ids:
  "mongo_ids (snd (handle e r s)) \<subseteq> insert (uuid4 e) (mongo_ids s)"
  "memory_ids (snd (handle e r s)) \<subseteq> insert (uuid4 e) (memory_ids s)"
proof -
  have by_id: "mongo_ids (snd (get_roadmap_by_id e m rid u s)) \<subseteq> mongo_ids s
      \<and> memory_ids (snd (get_roadmap_by_id e m rid u s)) \<subseteq> memory_ids s" for m rid u
  proof -
    have 1: "mongo_ids (snd (by_id_mongo e m rid u' (reconnect e s))) \<subseteq> mongo_ids s
        \<and> memory_ids (snd (by_id_mongo e m rid u' (reconnect e s))) \<subseteq> memory_ids s" for u'
      using by_id_mongo_stores(1,2) [of e m rid u' "reconnect e s"]
      by (auto simp: mongo_ids_def memory_ids_def)
    have 2: "mongo_ids (snd (by_id_memory e m rid u' (reconnect e s))) \<subseteq> mongo_ids s
        \<and> memory_ids (snd (by_id_memory e m rid u' (reconnect e s))) \<subseteq> memory_ids s" for u'
      using by_id_memory_stores(1,2) [of e m rid u' "reconnect e s"]
      by (auto simp: mongo_ids_def memory_ids_def)
    from get_roadmap_by_id_state [of e m rid u s] 1 2 show ?thesis
      by (elim disjE exE) simp_all
  qed
  show "mongo_ids (snd (handle e r s)) \<subseteq> insert (uuid4 e) (mongo_ids s)"
  proof (cases r)
    case (Generate g b d u)
    then show ?thesis using generate_roadmap_ids(1) [of e g b d u s] by simp
  next
    case (UserRoadmaps u)
    then show ?thesis by (auto simp: get_user_roadmaps_state)
  next
    case (ById m rid u)
    then show ?thesis using by_id [of m rid u] by auto
  qed
  show "memory_ids (snd (handle e r s)) \<subseteq> insert (uuid4 e) (memory_ids s)"
  proof (cases r)
    case (Generate g b d u)
    then show ?thesis using generate_roadmap_ids(2) [of e g b d u s] by simp
  next
    case (UserRoadmaps u)
    then show ?thesis by (auto simp: get_user_roadmaps_state)
  next
    case (ById m rid u)
    then show ?thesis using by_id [of m rid u] by auto
  qed
qed

text \<open>No request removes a roadmap, other than a \<open>DELETE\<close> for its identifier.\<close>

lemma handle_keeps_collection:
  assumes "x \<in> set (roadmap_collection s)" and "\<not> deletes (doc_id x) r"
  shows "x \<in> set (roadmap_collection (snd (handle e r s)))"
proof (cases r)
  case (Generate g b d u)
  then show ?thesis using generate_roadmap_keeps(1) [of s e g b d u] assms(1) by auto
next
  case (UserRoadmaps u)
  then show ?thesis using assms(1) by (simp add: get_user_roadmaps_state)
next
  case (ById m rid u)
  with assms(2) have n: "\<not> (m = DELETE \<and> doc_id x = rid)" by auto
  from assms(1) have x: "x \<in> set (roadmap_collection (reconnect e s))" by simp
  from get_roadmap_by_id_state [of e m rid u s]
    by_id_mongo_stores(3) [OF x n, of e] by_id_memory_stores(1) [of e m rid _ "reconnect e s"] x
  show ?thesis unfolding ById handle.simps
    by (elim disjE exE) simp_all
qed

lemma handle_keeps_memory:
  assumes "(k, v) \<in> set (in_memory_roadmaps s)" and "k \<noteq> uuid4 e" and "\<not> deletes k r"
  shows "(k, v) \<in> set (in_memory_roadmaps (snd (handle e r s)))"
proof (cases r)
  case (Generate g b d u)
  then show ?thesis using generate_roadmap_keeps(2) [OF assms(1,2), of g b d u] by simp
next
  case (UserRoadmaps u)
  then show ?thesis using assms(1) by (simp add: get_user_roadmaps_state)
next
  case (ById m rid u)
  with assms(3) have n: "\<not> (m = DELETE \<and> k = rid)" by auto
  from assms(1) have x: "(k, v) \<in> set (in_memory_roadmaps (reconnect e s))" by simp
  from get_roadmap_by_id_state [of e m rid u s]
    by_id_memory_stores(3) [OF x n, of e] by_id_mongo_stores(2) [of e m rid _ "reconnect e s"] x
  show ?thesis unfolding ById handle.simps
    by (elim disjE exE) simp_all
qed

lemma run_ids:
  assumes "fresh_uuids used t"
  shows "mongo_ids (run t s) \<subseteq> mongo_ids s \<union> - used"
    and "memory_ids (run t s) \<subseteq> memory_ids s \<union> - used"
  using assms
proof (induction t arbitrary: s used)
  case Nil
  {
    case 1 show ?case by simp
  next
    case 2 show ?case by simp
  }
next
  case (Cons a t)
  obtain e r where a: "a = (e, r)" by (cases a)
  {
    case 1
    with a have f: "uuid4 e \<notin> used" "fresh_uuids (insert (uuid4 e) used) t" by simp_all
    from Cons.IH(1) [OF f(2), of "snd (handle e r s)"] handle_ids(1) [of e r s] f(1)
    show ?case by (auto simp: a)
  next
    case 2
    with a have f: "uuid4 e \<notin> used" "fresh_uuids (insert (uuid4 e) used) t" by simp_all
    from Cons.IH(2) [OF f(2), of "snd (handle e r s)"] handle_ids(2) [of e r s] f(1)
    show ?case by (auto simp: a)
  }
qed

lemma run_keeps_collection:
  assumes "x \<in> set (roadmap_collection s)" and "\<forall>q \<in> set t. \<not> deletes (doc_id x) (snd q)"
  shows "x \<in> set (roadmap_collection (run t s))"
  using assms
proof (induction t arbitrary: s)
  case Nil
  then show ?case by simp
next
  case (Cons a t)
  obtain e r where a: "a = (e, r)" by (cases a)
  from Cons.prems a have "x \<in> set (roadmap_collection (snd (handle e r s)))"
    by (intro handle_keeps_collection) auto
  with Cons.IH [of "snd (handle e r s)"] Cons.prems(2) show ?case by (simp add: a)
qed

lemma run_keeps_memory:
  assumes "(k, v) \<in> set (in_memory_roadmaps s)" and "k \<in> used" and "fresh_uuids used t"
    and "\<forall>q \<in> set t. \<not> deletes k (snd q)"
  shows "(k, v) \<in> set (in_memory_roadmaps (run t s))"
  using assms
proof (induction t arbitrary: s used)
  case Nil
  then show ?case by simp
next
  case (Cons a t)
  obtain e r where a: "a = (e, r)" by (cases a)
  from Cons.prems a have f: "uuid4 e \<notin> used" "fresh_uuids (insert (uuid4 e) used) t" by simp_all
  with Cons.prems(2) have ne: "k \<noteq> uuid4 e" by auto
  from Cons.prems a have "\<not> deletes k r" by auto
  with Cons.prems(1) ne have "(k, v) \<in> set (in_memory_roadmaps (snd (handle e r s)))"
    by (intro handle_keeps_memory)
  from Cons.IH [OF this _ f(2)] Cons.prems(2,4) show ?case by (simp add: a)
qed

text \<open>
  Claim C2, as amended. A generate request that reaches the parse and is answered with
  status 200, with an identifier that \<open>uuid4\<close> gives once only. Right after the request the
  new roadmap is in the collection exactly when the store is available and \<open>insert_one\<close>
  wrote it (it succeeded, or it raised after the write had been applied), and it is in the
  in-memory mapping exactly when the store is not available or \<open>insert_one\<close> raised; so it
  is in at least one store, and in both exactly when \<open>insert_one\<close> raised after the write
  had been applied. After any further requests \<open>t\<close> it is in no store it was not in: no
  request copies or moves it. And when none of these requests is a \<open>DELETE\<close> for its
  identifier, it is in each store exactly as it was right after its creation.
\<close>

theorem roadmap_placed_and_never_moved:
  assumes "g \<noteq> []" "b \<noteq> []" "u \<noteq> []"
    and "vertexai_imports e" "vertex_setup_raises e = None"
    and "generate_content e (prompt g b d) = Inr answer"
    and "json_loads e (clean_markdown answer) = Inr roadmap_data"
    and "mongo_ids s \<union> memory_ids s \<subseteq> used"
    and "fresh_uuids used ((e, Generate (Some g) (Some b) d (Some u)) # t)"
    and "r = handle e (Generate (Some g) (Some b) d (Some u)) s"
    and "snd (fst r) = 200"
    and "s1 = snd r" and "s2 = run t s1"
  shows "(uuid4 e \<in> mongo_ids s1)
           = (db_and_collection_name e (reconnect e s) = Inr True
              \<and> (\<exists>oid. insert_one e = Inserted oid
                     \<or> (\<exists>err. insert_one e = Raised err (Some (oid, True)))))
       \<and> (uuid4 e \<in> memory_ids s1)
           = (db_and_collection_name e (reconnect e s) = Inr False
              \<or> db_and_collection_name e (reconnect e s) = Inr True
                \<and> (\<exists>err p. insert_one e = Raised err p))
       \<and> (uuid4 e \<in> mongo_ids s1 \<or> uuid4 e \<in> memory_ids s1)
       \<and> (uuid4 e \<in> mongo_ids s1 \<and> uuid4 e \<in> memory_ids s1)
           = (db_and_collection_name e (reconnect e s) = Inr True
              \<and> (\<exists>err oid. insert_one e = Raised err (Some (oid, True))))
       \<and> (uuid4 e \<in> mongo_ids s2 \<longrightarrow> uuid4 e \<in> mongo_ids s1)
       \<and> (uuid4 e \<in> memory_ids s2 \<longrightarrow> uuid4 e \<in> memory_ids s1)
       \<and> ((\<forall>q \<in> set t. \<not> deletes (uuid4 e) (snd q)) \<longrightarrow>
            (uuid4 e \<in> mongo_ids s2) = (uuid4 e \<in> mongo_ids s1)
            \<and> (uuid4 e \<in> memory_ids s2) = (uuid4 e \<in> memory_ids s1))"
proof -
  let ?s = "reconnect e s"
  from assms(9) have f: "uuid4 e \<notin> used" "fresh_uuids (insert (uuid4 e) used) t" by simp_all
  with assms(8) have n: "uuid4 e \<notin> mongo_ids ?s" "uuid4 e \<notin> memory_ids ?s" by auto
  have r: "r = persist e g b d u roadmap_data ?s"
    using assms(1-7,10) by (simp add: generate_roadmap_valid generate_checked_parsed)
  with assms(11,12) have ok: "snd (fst (persist e g b d u roadmap_data ?s)) = 200"
    and s1: "s1 = snd (persist e g b d u roadmap_data ?s)"
    by simp_all
  note place = persist_placement [OF n ok s1]
  have cond: "db_and_collection_name e ?s = Inr True \<or> db_and_collection_name e ?s = Inr False"
    using persist_cases [of e ?s g b d u roadmap_data] ok
    by (auto simp: generation_failed_status)
  have one: "uuid4 e \<in> mongo_ids s1 \<or> uuid4 e \<in> memory_ids s1"
  proof (cases "db_and_collection_name e ?s = Inr True")
    case True
    then show ?thesis unfolding place(1,2) by (cases "insert_one e") auto
  next
    case False
    with cond show ?thesis unfolding place(2) by simp
  qed
  have both: "(uuid4 e \<in> mongo_ids s1 \<and> uuid4 e \<in> memory_ids s1)
           = (db_and_collection_name e ?s = Inr True
              \<and> (\<exists>err oid. insert_one e = Raised err (Some (oid, True))))"
    unfolding place(1,2) by auto
  from run_ids [OF f(2), of s1] assms(13)
  have sub: "mongo_ids s2 \<subseteq> mongo_ids s1 \<union> - insert (uuid4 e) used"
    "memory_ids s2 \<subseteq> memory_ids s1 \<union> - insert (uuid4 e) used"
    by simp_all
  then have older: "uuid4 e \<in> mongo_ids s2 \<longrightarrow> uuid4 e \<in> mongo_ids s1"
    "uuid4 e \<in> memory_ids s2 \<longrightarrow> uuid4 e \<in> memory_ids s1"
    by auto
  have stay: "(uuid4 e \<in> mongo_ids s2) = (uuid4 e \<in> mongo_ids s1)
      \<and> (uuid4 e \<in> memory_ids s2) = (uuid4 e \<in> memory_ids s1)"
    if nd: "\<forall>q \<in> set t. \<not> deletes (uuid4 e) (snd q)"
  proof -
    have m: "uuid4 e \<in> mongo_ids s2" if "uuid4 e \<in> mongo_ids s1"
    proof -
      from that obtain x where x: "x \<in> set (roadmap_collection s1)" "doc_id x = uuid4 e"
        by (auto simp: mongo_ids_def)
      with nd have "x \<in> set (roadmap_collection (run t s1))"
        by (intro run_keeps_collection) auto
      then have "doc_id x \<in> doc_id ` set (roadmap_collection (run t s1))"
        by (rule imageI)
      with x(2) assms(13) show ?thesis by (simp add: mongo_ids_def)
    qed
    have i: "uuid4 e \<in> memory_ids s2" if "uuid4 e \<in> memory_ids s1"
    proof -
      from that place(3) obtain v where v: "(uuid4 e, v) \<in> set (in_memory_roadmaps s1)"
        "doc_id v = uuid4 e"
        by blast
      have "(uuid4 e, v) \<in> set (in_memory_roadmaps (run t s1))"
        by (rule run_keeps_memory [OF v(1) _ f(2) nd]) simp
      then have "doc_id (snd (uuid4 e, v)) \<in> doc_id ` snd ` set (in_memory_roadmaps (run t s1))"
        by (intro imageI)
      with v(2) assms(13) show ?thesis by (simp add: memory_ids_def)
    qed
    from m i older show ?thesis by blast
  qed
  from place(1,2) one both older stay show ?thesis by blast
qed

lemma sample_parse:
  "vertexai_imports sample_env" "vertex_setup_raises sample_env = None"
  "generate_content sample_env p = Inr fenced_answer"
  "json_loads sample_env (clean_markdown fenced_answer) = Inr (JDict [(''a'', JInt 1)])"
  "uuid4 sample_env = ''r2''"
  by (simp_all add: sample_env_def loads_fenced_answer)

lemma sample_ids:
  "mongo_ids memory_server = {}" "memory_ids memory_server = {''r1''}"
  "mongo_ids mongo_server = {''r1''}" "memory_ids mongo_server = {}"
  by (simp_all add: mongo_ids_def memory_ids_def memory_server_def mongo_server_def sample_document_def)

lemma memory_server_generate_status:
  "snd (fst (handle sample_env
      (Generate (Some ''Become an ML Engineer'') (Some ''Python programmer'') (Some 12)
         (Some ''b@x.com'')) memory_server)) = 200"
  by (simp add: generate_roadmap_valid generate_checked_parsed [OF sample_parse(1-4)]
      reconnect_memory_server persist_def memory_server_condition Let_def)

theorem roadmap_placed_and_never_moved_witness:
  "(let later = [(sample_env\<lparr>uuid4 := ''r3''\<rparr>, ById DELETE ''r1'' (Some ''a@x.com'')),
                 (sample_env\<lparr>uuid4 := ''r4''\<rparr>, UserRoadmaps (Some ''b@x.com''))];
        s1 = snd (handle sample_env
                    (Generate (Some ''Become an ML Engineer'') (Some ''Python programmer'') (Some 12)
                       (Some ''b@x.com'')) memory_server)
    in ''r2'' \<in> memory_ids s1 \<and> ''r2'' \<notin> mongo_ids s1
     \<and> ''r2'' \<in> memory_ids (run later s1) \<and> ''r2'' \<notin> mongo_ids (run later s1))"
proof -
  let ?g = "''Become an ML Engineer''" and ?b = "''Python programmer''" and ?u = "''b@x.com''"
  let ?later = "[(sample_env\<lparr>uuid4 := ''r3''\<rparr>, ById DELETE ''r1'' (Some ''a@x.com'')),
                 (sample_env\<lparr>uuid4 := ''r4''\<rparr>, UserRoadmaps (Some ''b@x.com''))]"
  let ?req = "Generate (Some ?g) (Some ?b) (Some 12) (Some ?u)"
  let ?s1 = "snd (handle sample_env ?req memory_server)"
  have fresh: "fresh_uuids {''r1''} ((sample_env, ?req) # ?later)"
    by (simp add: sample_env_def)
  have nd: "\<forall>q \<in> set ?later. \<not> deletes ''r2'' (snd q)" by simp
  have c: "db_and_collection_name sample_env (reconnect sample_env memory_server) = Inr False"
    by (simp add: reconnect_memory_server memory_server_condition)
  from roadmap_placed_and_never_moved [of ?g ?b ?u sample_env "Some 12" fenced_answer
      "JDict [(''a'', JInt 1)]" memory_server "{''r1''}" ?later
      "handle sample_env ?req memory_server" ?s1 "run ?later ?s1",
      OF _ _ _ sample_parse(1-4) _ fresh refl memory_server_generate_status refl refl]
    c nd
  have "''r2'' \<in> memory_ids ?s1 \<and> ''r2'' \<notin> mongo_ids ?s1
     \<and> ''r2'' \<in> memory_ids (run ?later ?s1) \<and> ''r2'' \<notin> mongo_ids (run ?later ?s1)"
    by (simp add: sample_ids sample_parse)
  then show ?thesis by (simp add: Let_def)
qed

text \<open>
  Claim C2 as stated fails: with a store that is available, a truth test that does not
  raise and an \<open>insert_one\<close> that raises after the write has been applied, the new roadmap
  is in the collection and in the in-memory mapping, and the answer is 200 with a warning.
\<close>

theorem roadmap_in_both_stores:
  "(let r = generate_roadmap (sample_env\<lparr>insert_one := Raised ''timed out'' (Some (''oid2'', True))\<rparr>)
              (Some ''Become an ML Engineer'') (Some ''Python programmer'') (Some 12)
              (Some ''b@x.com'') mongo_server
    in fst r = (Obj [(''roadmap'', JDict [(''a'', JInt 1)]),
                     (''warning'', JStr ''Database save failed, stored in memory fallback: timed out'')],
                200)
     \<and> ''r2'' \<in> mongo_ids (snd r) \<and> ''r2'' \<in> memory_ids (snd r))"
proof -
  let ?e = "sample_env\<lparr>insert_one := Raised ''timed out'' (Some (''oid2'', True))\<rparr>"
  have p: "vertexai_imports ?e" "vertex_setup_raises ?e = None"
    "generate_content ?e p = Inr fenced_answer"
    "json_loads ?e (clean_markdown fenced_answer) = Inr (JDict [(''a'', JInt 1)])" for p
    by (simp_all add: sample_env_def loads_fenced_answer)
  have c: "db_and_collection_name ?e mongo_server = Inr True"
    by (simp add: mongo_server_condition sample_env_def)
  have i: "insert_one ?e = Raised ''timed out'' (Some (''oid2'', True))" "uuid4 ?e = ''r2''"
    by (simp_all add: sample_env_def)
  have g: "generate_roadmap ?e (Some ''Become an ML Engineer'') (Some ''Python programmer'') (Some 12)
              (Some ''b@x.com'') mongo_server
      = persist ?e ''Become an ML Engineer'' ''Python programmer'' (Some 12) ''b@x.com''
          (JDict [(''a'', JInt 1)]) mongo_server"
    by (simp add: generate_roadmap_valid generate_checked_parsed [OF p] reconnect_mongo_server)
  show ?thesis
    unfolding Let_def g
    by (simp add: persist_def Let_def c i mongo_ids_append store_in_memory_has [where doc = "\<lparr>doc_oid = Some ''oid2'', doc_id = ''r2'', doc_user_email = ''b@x.com'', doc_title = ''Become an ML Engineer'', doc_description = ''Python programmer'', doc_duration_weeks = Some 12, doc_created_at = Datetime (utcnow ?e), doc_data = JDict [(''a'', JInt 1)]\<rparr>", simplified])
qed


end
